theory Spec2Isabelle
  imports Main "HOL-Library.AList" "HOL-Library.Multiset" "HOL-Library.Sublist"
begin

section \<open>JSON documents as Python sees them\<close>

text \<open>
  \<^verbatim>\<open>example_scraper.py\<close> works on what \<^verbatim>\<open>json.load\<close> returns: \<^verbatim>\<open>None\<close>, booleans,
  unbounded integers, floats, strings, lists and insertion-ordered dictionaries with string
  keys. The program never does arithmetic on a float and never compares one; the only thing
  it can observe of a float is the text Python prints for it (\<^verbatim>\<open>str\<close>, \<^verbatim>\<open>repr\<close> and
  \<^verbatim>\<open>json.dump\<close> all print the same text), so a float is carried as that text.
  A dictionary is an association list in insertion order; \<^verbatim>\<open>d[k] = v\<close> overwrites the
  entry in place when the key is there and appends it otherwise, which is
  \<^const>\<open>AList.update\<close>.
\<close>

datatype json =
    JNull
  | JBool bool
  | JInt int
  | JFloat string
  | JStr string
  | JArr "json list"
  | JObj "(string \<times> json) list"

type_synonym pydict = "(string \<times> json) list"

datatype py_error = KeyError | IndexError | TypeError | AttributeError | ValueError

text \<open>\<^verbatim>\<open>d.get(k)\<close>: the value, or \<^verbatim>\<open>None\<close> when the key is absent.\<close>

definition dict_get :: "pydict \<Rightarrow> string \<Rightarrow> json" where
  "dict_get d k = (case map_of d k of None \<Rightarrow> JNull | Some v \<Rightarrow> v)"

text \<open>\<^verbatim>\<open>d.get(k, default)\<close>: the default stands in for an absent key only; a key that is
  present with the value \<^verbatim>\<open>None\<close> yields \<^verbatim>\<open>None\<close>.\<close>

definition dict_get_default :: "pydict \<Rightarrow> string \<Rightarrow> json \<Rightarrow> json" where
  "dict_get_default d k dflt = (case map_of d k of None \<Rightarrow> dflt | Some v \<Rightarrow> v)"

subsection \<open>Subscripting\<close>

text \<open>\<^verbatim>\<open>obj[key]\<close> with a string key: a dictionary looks the key up (KeyError when it is
  absent); a list, a string and every scalar raise TypeError.\<close>

definition getitem_key :: "json \<Rightarrow> string \<Rightarrow> py_error + json" where
  "getitem_key obj k =
     (case obj of
        JObj d \<Rightarrow> (case map_of d k of None \<Rightarrow> Inl KeyError | Some v \<Rightarrow> Inr v)
      | _ \<Rightarrow> Inl TypeError)"

text \<open>\<^verbatim>\<open>obj[i]\<close> with one of the literal indices 0, 1, 2 of the source: a list yields its
  element or IndexError; a string yields the one-character string at that position or
  IndexError; a dictionary loaded from JSON has string keys only, so an integer key is a
  KeyError; the scalars raise TypeError.\<close>

definition getitem_idx :: "json \<Rightarrow> nat \<Rightarrow> py_error + json" where
  "getitem_idx obj i =
     (case obj of
        JArr xs \<Rightarrow> (if i < length xs then Inr (xs ! i) else Inl IndexError)
      | JStr s \<Rightarrow> (if i < length s then Inr (JStr [s ! i]) else Inl IndexError)
      | JObj d \<Rightarrow> Inl KeyError
      | _ \<Rightarrow> Inl TypeError)"

text \<open>\<^verbatim>\<open>obj[key] = v\<close> with a string key: only a dictionary supports it.\<close>

definition setitem_key :: "json \<Rightarrow> string \<Rightarrow> json \<Rightarrow> py_error + json" where
  "setitem_key obj k v =
     (case obj of
        JObj d \<Rightarrow> Inr (JObj (AList.update k v d))
      | _ \<Rightarrow> Inl TypeError)"

text \<open>
  \<^verbatim>\<open>template[key][i][slot] = v\<close>, the statement that fills a template. The two reads
  return references into the document and the assignment mutates the innermost dictionary in
  place, so the updated element is stored back at the position it was read from. The store
  is reached only when the three steps succeeded, that is, for a dictionary holding a list
  whose \<open>i\<close>-th element is a dictionary.
\<close>

definition store_back :: "json \<Rightarrow> string \<Rightarrow> nat \<Rightarrow> json \<Rightarrow> json" where
  "store_back template k i el =
     (case template of
        JObj d \<Rightarrow>
          (case map_of d k of
             Some (JArr xs) \<Rightarrow> JObj (AList.update k (JArr (xs[i := el])) d)
           | _ \<Rightarrow> template)
      | _ \<Rightarrow> template)"

definition assign_slot :: "json \<Rightarrow> string \<Rightarrow> nat \<Rightarrow> string \<Rightarrow> json \<Rightarrow> py_error + json" where
  "assign_slot template k i slot v =
     (case getitem_key template k of
        Inl e \<Rightarrow> Inl e
      | Inr lst \<Rightarrow>
          (case getitem_idx lst i of
             Inl e \<Rightarrow> Inl e
           | Inr el \<Rightarrow>
               (case setitem_key el slot v of
                  Inl e \<Rightarrow> Inl e
                | Inr el' \<Rightarrow> Inr (store_back template k i el'))))"

subsection \<open>Formatting a value into an f-string\<close>

text \<open>
  An f-string field \<^verbatim>\<open>{v}\<close> prints \<^verbatim>\<open>str(v)\<close>: a string as it is, \<^verbatim>\<open>None\<close>, \<^verbatim>\<open>True\<close>,
  \<^verbatim>\<open>False\<close>, an integer in decimal, a float by its text, and a list or dictionary by the
  \<^verbatim>\<open>repr\<close> of its parts, where a string is quoted and escaped.
\<close>

fun nat_digits :: "nat \<Rightarrow> string" where
  "nat_digits n =
     (if n < 10 then [''0123456789'' ! n]
      else nat_digits (n div 10) @ [''0123456789'' ! (n mod 10)])"

definition int_str :: "int \<Rightarrow> string" where
  "int_str i = (if i < 0 then CHR ''-'' # nat_digits (nat (- i)) else nat_digits (nat i))"

definition hex2 :: "nat \<Rightarrow> string" where
  "hex2 n = [''0123456789abcdef'' ! (n div 16), ''0123456789abcdef'' ! (n mod 16)]"

text \<open>One character inside a quoted string, \<open>q\<close> being the quote in use: the quote and
  the backslash are escaped, tab, newline and carriage return get their letter, the other
  control characters are printed as \<^verbatim>\<open>\xNN\<close>, and everything else stands for itself.\<close>

definition repr_char :: "char \<Rightarrow> char \<Rightarrow> string" where
  "repr_char q c =
     (if c = q \<or> c = CHR 0x5C then [CHR 0x5C, c]
      else if c = CHR 0x09 then [CHR 0x5C, CHR ''t'']
      else if c = CHR 0x0A then [CHR 0x5C, CHR ''n'']
      else if c = CHR 0x0D then [CHR 0x5C, CHR ''r'']
      else if (of_char c :: nat) < 32 \<or> c = CHR 0x7F then [CHR 0x5C, CHR ''x''] @ hex2 (of_char c)
      else [c])"

text \<open>\<^verbatim>\<open>repr\<close> of a string: single quotes, unless the text has a single quote and no
  double quote.\<close>

definition repr_str :: "string \<Rightarrow> string" where
  "repr_str s =
     (let q = (if CHR 0x27 \<in> set s \<and> CHR 0x22 \<notin> set s then CHR 0x22 else CHR 0x27)
      in [q] @ concat (map (repr_char q) s) @ [q])"

fun join_comma :: "string list \<Rightarrow> string" where
  "join_comma [] = []"
| "join_comma [x] = x"
| "join_comma (x # y # ys) = x @ '', '' @ join_comma (y # ys)"

primrec py_repr :: "json \<Rightarrow> string" where
  "py_repr JNull = ''None''"
| "py_repr (JBool b) = (if b then ''True'' else ''False'')"
| "py_repr (JInt i) = int_str i"
| "py_repr (JFloat s) = s"
| "py_repr (JStr s) = repr_str s"
| "py_repr (JArr xs) = ''['' @ join_comma (map py_repr xs) @ '']''"
| "py_repr (JObj kvs) =
     ''{'' @ join_comma (map (\<lambda>kv. repr_str (fst kv) @ '': '' @ snd kv)
                             (map (map_prod id py_repr) kvs)) @ ''}''"

definition py_str :: "json \<Rightarrow> string" where
  "py_str v = (case v of JStr s \<Rightarrow> s | _ \<Rightarrow> py_repr v)"

section \<open>Dates, the ISO parser and the clock\<close>

text \<open>
  A \<^verbatim>\<open>datetime\<close> value: the calendar fields and the \<^verbatim>\<open>tzinfo\<close>, which is absent for
  a naive value and otherwise a fixed offset from UTC, in microseconds.
\<close>

record datetime =
  year :: int
  month :: int
  day :: int
  hour :: int
  minute :: int
  second :: int
  microsecond :: int
  tzinfo :: "int option"

definition is_leap :: "int \<Rightarrow> bool" where
  "is_leap y = (y mod 4 = 0 \<and> (y mod 100 \<noteq> 0 \<or> y mod 400 = 0))"

definition days_in_month :: "int \<Rightarrow> int \<Rightarrow> int" where
  "days_in_month y m =
     (if m = 2 then (if is_leap y then 29 else 28)
      else if m = 4 \<or> m = 6 \<or> m = 9 \<or> m = 11 then 30
      else 31)"

definition days_before_year :: "int \<Rightarrow> int" where
  "days_before_year y = (y - 1) * 365 + (y - 1) div 4 - (y - 1) div 100 + (y - 1) div 400"

definition days_before_month :: "int \<Rightarrow> int \<Rightarrow> int" where
  "days_before_month y m = sum_list (map (days_in_month y) [1..m - 1])"

text \<open>The proleptic Gregorian ordinal of a date; 0001-01-01 is day 1.\<close>

definition ymd2ord :: "int \<Rightarrow> int \<Rightarrow> int \<Rightarrow> int" where
  "ymd2ord y m d = days_before_year y + days_before_month y m + d"

definition us_per_day :: int where
  "us_per_day = 86400000000"

text \<open>The wall-clock reading of a value, in microseconds since 0001-01-01T00:00:00 of its
  own zone.\<close>

definition wall_us :: "datetime \<Rightarrow> int" where
  "wall_us dt =
     (ymd2ord (year dt) (month dt) (day dt) - 1) * us_per_day
     + ((hour dt * 60 + minute dt) * 60 + second dt) * 1000000
     + microsecond dt"

subsection \<open>\<^verbatim>\<open>datetime.fromisoformat\<close>\<close>

text \<open>
  The parser of the standard library is modelled by the grammar its documentation gives, the
  strings \<^verbatim>\<open>isoformat()\<close> emits:
  \<^verbatim>\<open>YYYY-MM-DD[*HH[:MM[:SS[.fff[fff]]]][+HH:MM[:SS[.ffffff]]]]\<close>, where \<^verbatim>\<open>*\<close> is any one
  character and the offset has either sign. The fields are then checked as the
  \<^verbatim>\<open>datetime\<close> constructor checks them (year 1 to 9999, a day that exists in its month,
  hour below 24, minute and second below 60) and the offset must lie strictly between
  minus and plus 24 hours. Every other string is a ValueError. Later versions of the library
  accept further ISO 8601 spellings; here they count as unparseable.
\<close>

definition digit_val :: "char \<Rightarrow> int option" where
  "digit_val c = map_of (zip ''0123456789'' [0, 1, 2, 3, 4, 5, 6, 7, 8, 9]) c"

fun digits_acc :: "int \<Rightarrow> string \<Rightarrow> int option" where
  "digits_acc acc [] = Some acc"
| "digits_acc acc (c # cs) =
     (case digit_val c of None \<Rightarrow> None | Some d \<Rightarrow> digits_acc (10 * acc + d) cs)"

definition parse_digits :: "string \<Rightarrow> int option" where
  "parse_digits s = (if s = [] then None else digits_acc 0 s)"

text \<open>The two digits at position \<open>i\<close>.\<close>

definition field2 :: "string \<Rightarrow> nat \<Rightarrow> int option" where
  "field2 s i = (if i + 2 \<le> length s then parse_digits (take 2 (drop i s)) else None)"

definition parse_isoformat_date :: "string \<Rightarrow> (int \<times> int \<times> int) option" where
  "parse_isoformat_date s =
     (if length s = 10 \<and> s ! 4 = CHR ''-'' \<and> s ! 7 = CHR ''-'' then
        (case (parse_digits (take 4 s), field2 s 5, field2 s 8) of
           (Some y, Some m, Some d) \<Rightarrow> Some (y, m, d)
         | _ \<Rightarrow> None)
      else None)"

text \<open>\<^verbatim>\<open>HH[:MM[:SS[.fff[fff]]]]\<close>: hour, minute, second, microsecond.\<close>

definition parse_hh_mm_ss_ff :: "string \<Rightarrow> (int \<times> int \<times> int \<times> int) option" where
  "parse_hh_mm_ss_ff t =
     (let n = length t in
      if n = 2 then
        (case field2 t 0 of Some h \<Rightarrow> Some (h, 0, 0, 0) | None \<Rightarrow> None)
      else if n = 5 \<and> t ! 2 = CHR '':'' then
        (case (field2 t 0, field2 t 3) of
           (Some h, Some mi) \<Rightarrow> Some (h, mi, 0, 0)
         | _ \<Rightarrow> None)
      else if n = 8 \<and> t ! 2 = CHR '':'' \<and> t ! 5 = CHR '':'' then
        (case (field2 t 0, field2 t 3, field2 t 6) of
           (Some h, Some mi, Some sec) \<Rightarrow> Some (h, mi, sec, 0)
         | _ \<Rightarrow> None)
      else if (n = 12 \<or> n = 15) \<and> t ! 2 = CHR '':'' \<and> t ! 5 = CHR '':'' \<and> t ! 8 = CHR ''.'' then
        (case (field2 t 0, field2 t 3, field2 t 6, parse_digits (drop 9 t)) of
           (Some h, Some mi, Some sec, Some f) \<Rightarrow>
             Some (h, mi, sec, if n = 12 then f * 1000 else f)
         | _ \<Rightarrow> None)
      else None)"

text \<open>The offset after the sign: \<^verbatim>\<open>HH:MM\<close>, \<^verbatim>\<open>HH:MM:SS\<close> or \<^verbatim>\<open>HH:MM:SS.ffffff\<close>, as
  microseconds; \<^verbatim>\<open>timezone\<close> refuses an offset of 24 hours or more.\<close>

definition parse_tz :: "char \<Rightarrow> string \<Rightarrow> int option" where
  "parse_tz sign tz =
     (if length tz = 5 \<or> length tz = 8 \<or> length tz = 15 then
        (case parse_hh_mm_ss_ff tz of
           None \<Rightarrow> None
         | Some (h, mi, sec, f) \<Rightarrow>
             (let off = ((h * 60 + mi) * 60 + sec) * 1000000 + f
              in if off < us_per_day
                 then Some (if sign = CHR ''-'' then - off else off)
                 else None))
      else None)"

text \<open>The part after the separator: the time up to the first sign, then the offset.\<close>

definition parse_isoformat_time :: "string \<Rightarrow> ((int \<times> int \<times> int \<times> int) \<times> int option) option" where
  "parse_isoformat_time t =
     (let is_sign = (\<lambda>c. c = CHR ''+'' \<or> c = CHR ''-'');
          tm = takeWhile (\<lambda>c. \<not> is_sign c) t;
          rest = dropWhile (\<lambda>c. \<not> is_sign c) t
      in case parse_hh_mm_ss_ff tm of
           None \<Rightarrow> None
         | Some comps \<Rightarrow>
             (case rest of
                [] \<Rightarrow> Some (comps, None)
              | sign # tz \<Rightarrow>
                  (case parse_tz sign tz of
                     None \<Rightarrow> None
                   | Some off \<Rightarrow> Some (comps, Some off))))"

definition valid_date :: "int \<Rightarrow> int \<Rightarrow> int \<Rightarrow> bool" where
  "valid_date y m d =
     (1 \<le> y \<and> y \<le> 9999 \<and> 1 \<le> m \<and> m \<le> 12 \<and> 1 \<le> d \<and> d \<le> days_in_month y m)"

definition valid_time :: "int \<Rightarrow> int \<Rightarrow> int \<Rightarrow> bool" where
  "valid_time h mi sec = (h < 24 \<and> mi < 60 \<and> sec < 60)"

definition fromisoformat :: "string \<Rightarrow> py_error + datetime" where
  "fromisoformat s =
     (case parse_isoformat_date (take 10 s) of
        None \<Rightarrow> Inl ValueError
      | Some (y, m, d) \<Rightarrow>
          if \<not> valid_date y m d then Inl ValueError
          else if length s = 10 then
            Inr \<lparr>year = y, month = m, day = d, hour = 0, minute = 0, second = 0,
                 microsecond = 0, tzinfo = None\<rparr>
          else
            (case parse_isoformat_time (drop 11 s) of
               None \<Rightarrow> Inl ValueError
             | Some ((h, mi, sec, f), tz) \<Rightarrow>
                 if valid_time h mi sec then
                   Inr \<lparr>year = y, month = m, day = d, hour = h, minute = mi, second = sec,
                        microsecond = f, tzinfo = tz\<rparr>
                 else Inl ValueError))"

subsection \<open>The clock\<close>

text \<open>
  The one input of the program that is not an argument: the moment of evaluation. A reading
  of the clock is the UTC time in microseconds since 0001-01-01T00:00:00 together with the
  offset of the host's local zone at that moment. \<^verbatim>\<open>datetime.now(tz)\<close> is the wall-clock
  time in the zone \<open>tz\<close>, and local time when \<open>tz\<close> is \<^verbatim>\<open>None\<close>.
  The source reads the clock once for each assignment it processes; an export is modelled at
  one reading, the moment being taken as frozen while the loop runs.
\<close>

record clock =
  utc_now :: int
  local_utcoffset :: int

definition datetime_now :: "clock \<Rightarrow> int option \<Rightarrow> int" where
  "datetime_now clk tz =
     utc_now clk + (case tz of None \<Rightarrow> local_utcoffset clk | Some off \<Rightarrow> off)"

section \<open>The transformer\<close>

text \<open>
  The methods of \<^verbatim>\<open>AssignmentScraper\<close> that do the work. An assignment is a dictionary
  (the parameter is annotated \<^verbatim>\<open>List[Dict]\<close>); each transformation takes as an argument
  the template it loads from its file.
\<close>

subsection \<open>\<^verbatim>\<open>_calculate_days_until_due\<close>\<close>

text \<open>\<^verbatim>\<open>not v\<close> is true of \<^verbatim>\<open>None\<close>, \<^verbatim>\<open>False\<close>, zero, and the empty string, list and
  dictionary.\<close>

definition truthy :: "json \<Rightarrow> bool" where
  "truthy v =
     (case v of
        JNull \<Rightarrow> False
      | JBool b \<Rightarrow> b
      | JInt i \<Rightarrow> i \<noteq> 0
      | JFloat s \<Rightarrow> s \<noteq> ''0.0'' \<and> s \<noteq> ''-0.0''
      | JStr s \<Rightarrow> s \<noteq> []
      | JArr xs \<Rightarrow> xs \<noteq> []
      | JObj d \<Rightarrow> d \<noteq> [])"

text \<open>\<^verbatim>\<open>s.replace('Z', '+00:00')\<close>: every \<^verbatim>\<open>Z\<close> of the string.\<close>

definition replace_Z :: "string \<Rightarrow> string" where
  "replace_Z s = concat (map (\<lambda>c. if c = CHR ''Z'' then ''+00:00'' else [c]) s)"

text \<open>
  The body of the \<^verbatim>\<open>try\<close>. A value that is not a string has no \<^verbatim>\<open>replace\<close>
  (AttributeError); the parser may raise ValueError. Two values with the same \<^verbatim>\<open>tzinfo\<close>
  subtract as wall-clock readings, and \<^verbatim>\<open>timedelta.days\<close> is the floor of the difference in
  days, the remainder being kept non-negative in the seconds and microseconds.
\<close>

definition days_until_due_try :: "clock \<Rightarrow> json \<Rightarrow> py_error + int" where
  "days_until_due_try clk v =
     (case v of
        JStr s \<Rightarrow>
          (case fromisoformat (replace_Z s) of
             Inl e \<Rightarrow> Inl e
           | Inr due_date \<Rightarrow>
               (let now = datetime_now clk (tzinfo due_date);
                    delta = wall_us due_date - now
                in Inr (delta div us_per_day)))
      | _ \<Rightarrow> Inl AttributeError)"

text \<open>The whole function: the early return for a falsy argument, and the bare
  \<^verbatim>\<open>except\<close> that turns every error of the body into \<^verbatim>\<open>None\<close>.\<close>

definition calculate_days_until_due :: "clock \<Rightarrow> json \<Rightarrow> int option" where
  "calculate_days_until_due clk due_date_str =
     (if \<not> truthy due_date_str then None
      else (case days_until_due_try clk due_date_str of
              Inl e \<Rightarrow> None
            | Inr d \<Rightarrow> Some d))"

subsection \<open>\<^verbatim>\<open>transform_to_sheets_format\<close>\<close>

text \<open>An \<^verbatim>\<open>Optional[int]\<close> as the JSON value it is written as.\<close>

definition json_of_days :: "int option \<Rightarrow> json" where
  "json_of_days r = (case r of None \<Rightarrow> JNull | Some n \<Rightarrow> JInt n)"

text \<open>The row built for one assignment (lines 127 to 141).\<close>

definition sheets_row :: "clock \<Rightarrow> pydict \<Rightarrow> json list" where
  "sheets_row clk assignment =
     [dict_get_default assignment ''assignment_id'' (JStr ''''),
      dict_get_default assignment ''class_code'' (JStr ''''),
      dict_get_default assignment ''class_name'' (JStr ''''),
      dict_get_default assignment ''title'' (JStr ''''),
      dict_get_default assignment ''type'' (JStr ''''),
      dict_get_default assignment ''status'' (JStr ''''),
      dict_get_default assignment ''assigned_date'' (JStr ''''),
      dict_get_default assignment ''due_date'' (JStr ''''),
      json_of_days (calculate_days_until_due clk (dict_get assignment ''due_date'')),
      dict_get_default assignment ''priority'' (JStr ''''),
      dict_get_default assignment ''points_possible'' (JStr ''''),
      dict_get_default assignment ''estimated_hours'' (JStr ''''),
      dict_get_default assignment ''url'' (JStr '''')]"

text \<open>The loop: each assignment appends its row.\<close>

definition sheets_rows :: "clock \<Rightarrow> pydict list \<Rightarrow> json list" where
  "sheets_rows clk assignments =
     foldl (\<lambda>rows assignment. rows @ [JArr (sheets_row clk assignment)]) [] assignments"

text \<open>The template is the document loaded from \<^verbatim>\<open>template_data/output_google_sheets.json\<close>;
  the function returns it with \<^verbatim>\<open>template['sheet_tabs'][0]['rows']\<close> overwritten, or the
  error that statement raises.\<close>

definition transform_to_sheets_format :: "clock \<Rightarrow> json \<Rightarrow> pydict list \<Rightarrow> py_error + json" where
  "transform_to_sheets_format clk template assignments =
     assign_slot template ''sheet_tabs'' 0 ''rows'' (JArr (sheets_rows clk assignments))"

subsection \<open>\<^verbatim>\<open>transform_to_notion_format\<close>\<close>

definition notion_properties :: "pydict \<Rightarrow> pydict" where
  "notion_properties assignment =
     [(''Assignment ID'', dict_get_default assignment ''assignment_id'' (JStr '''')),
      (''Title'', dict_get_default assignment ''title'' (JStr '''')),
      (''Class'', dict_get_default assignment ''class_code'' (JStr '''')),
      (''Type'', dict_get_default assignment ''type'' (JStr '''')),
      (''Status'', dict_get_default assignment ''status'' (JStr '''')),
      (''Priority'', dict_get_default assignment ''priority'' (JStr '''')),
      (''Assigned Date'', dict_get_default assignment ''assigned_date'' (JStr '''')),
      (''Due Date'', dict_get_default assignment ''due_date'' (JStr '''')),
      (''Points'', dict_get_default assignment ''points_possible'' (JInt 0)),
      (''Estimated Hours'', dict_get_default assignment ''estimated_hours'' (JInt 0)),
      (''URL'', dict_get_default assignment ''url'' (JStr '''')),
      (''Tags'', JArr [])]"

definition notion_content :: "pydict \<Rightarrow> json list" where
  "notion_content assignment =
     [JObj [(''type'', JStr ''heading_2''), (''text'', JStr ''Description'')],
      JObj [(''type'', JStr ''paragraph''),
            (''text'', dict_get_default assignment ''description'' (JStr ''''))],
      JObj [(''type'', JStr ''heading_2''), (''text'', JStr ''Checklist'')],
      JObj [(''type'', JStr ''to_do''), (''text'', JStr ''Complete assignment''),
            (''checked'', JBool False)]]"

text \<open>The page built for one assignment (lines 159 to 181).\<close>

definition notion_page :: "pydict \<Rightarrow> json" where
  "notion_page assignment =
     JObj [(''page_id'', JStr (''page_'' @ py_str (dict_get assignment ''assignment_id''))),
           (''properties'', JObj (notion_properties assignment)),
           (''content'', JArr (notion_content assignment))]"

definition notion_pages :: "pydict list \<Rightarrow> json list" where
  "notion_pages assignments =
     foldl (\<lambda>pages assignment. pages @ [notion_page assignment]) [] assignments"

text \<open>\<^verbatim>\<open>template['pages'] = pages\<close> on the document loaded from
  \<^verbatim>\<open>template_data/output_notion.json\<close>.\<close>

definition transform_to_notion_format :: "json \<Rightarrow> pydict list \<Rightarrow> py_error + json" where
  "transform_to_notion_format template assignments =
     setitem_key template ''pages'' (JArr (notion_pages assignments))"

subsection \<open>\<^verbatim>\<open>transform_to_todo_format\<close>\<close>

text \<open>The task built for one assignment (lines 202 to 216).\<close>

definition todo_task :: "pydict \<Rightarrow> json" where
  "todo_task assignment =
     JObj [(''task_id'', JStr (''task_'' @ py_str (dict_get assignment ''assignment_id''))),
           (''title'', JStr (py_str (dict_get assignment ''class_code'') @ '': ''
                             @ py_str (dict_get assignment ''title''))),
           (''description'', dict_get_default assignment ''description'' (JStr '''')),
           (''due_date'', dict_get_default assignment ''due_date'' (JStr '''')),
           (''priority'', dict_get_default assignment ''priority'' (JStr ''medium'')),
           (''estimated_time'',
              JStr (py_str (dict_get_default assignment ''estimated_hours'' (JInt 0)) @ '' hours'')),
           (''tags'', JArr [dict_get_default assignment ''type'' (JStr ''''),
                            dict_get_default assignment ''class_code'' (JStr '''')]),
           (''url'', dict_get_default assignment ''url'' (JStr '''')),
           (''checklist'',
              JArr [JObj [(''item'', JStr ''Start assignment''), (''completed'', JBool False)],
                    JObj [(''item'', JStr ''Complete assignment''), (''completed'', JBool False)],
                    JObj [(''item'', JStr ''Submit assignment''), (''completed'', JBool False)]])]"

text \<open>The three lists the loop fills.\<close>

record todo_lists =
  urgent_important :: "json list"
  important_not_urgent :: "json list"
  regular :: "json list"

text \<open>One pass of the loop body (lines 202 to 225): build the task, read the clock, and
  append the task to the list the \<^verbatim>\<open>if\<close>/\<^verbatim>\<open>elif\<close>/\<^verbatim>\<open>else\<close> selects.\<close>

definition todo_step :: "clock \<Rightarrow> todo_lists \<Rightarrow> pydict \<Rightarrow> todo_lists" where
  "todo_step clk st assignment =
     (let task = todo_task assignment;
          days_until_due = calculate_days_until_due clk (dict_get assignment ''due_date'')
      in if (case days_until_due of None \<Rightarrow> False | Some n \<Rightarrow> n \<le> 3) then
           st\<lparr>urgent_important := urgent_important st @ [task]\<rparr>
         else if dict_get assignment ''priority'' = JStr ''critical''
                 \<or> dict_get assignment ''priority'' = JStr ''high'' then
           st\<lparr>important_not_urgent := important_not_urgent st @ [task]\<rparr>
         else
           st\<lparr>regular := regular st @ [task]\<rparr>)"

definition todo_loop :: "clock \<Rightarrow> pydict list \<Rightarrow> todo_lists" where
  "todo_loop clk assignments =
     foldl (todo_step clk)
       \<lparr>urgent_important = [], important_not_urgent = [], regular = []\<rparr> assignments"

text \<open>Lines 227 to 229: the three lists go into the \<^verbatim>\<open>tasks\<close> of the first three
  categories, one statement after the other; the first that raises ends the call.\<close>

definition fill_categories :: "json \<Rightarrow> json \<Rightarrow> json \<Rightarrow> json \<Rightarrow> py_error + json" where
  "fill_categories template u i r =
     (case assign_slot template ''categories'' 0 ''tasks'' u of
        Inl e \<Rightarrow> Inl e
      | Inr t0 \<Rightarrow>
          (case assign_slot t0 ''categories'' 1 ''tasks'' i of
             Inl e \<Rightarrow> Inl e
           | Inr t1 \<Rightarrow> assign_slot t1 ''categories'' 2 ''tasks'' r))"

definition transform_to_todo_format :: "clock \<Rightarrow> json \<Rightarrow> pydict list \<Rightarrow> py_error + json" where
  "transform_to_todo_format clk template assignments =
     (let st = todo_loop clk assignments
      in fill_categories template
           (JArr (urgent_important st)) (JArr (important_not_urgent st)) (JArr (regular st)))"

subsection \<open>\<^verbatim>\<open>export_all_formats\<close>\<close>

text \<open>
  The three exports in the order of the source, each written to its file before the next is
  computed. The result is the list of files written, path and document, and the error that
  ended the call, if any. The three templates are the documents the transformations load.
  Creating the directory and the progress messages are left out.
\<close>

record templates =
  sheets_template :: json
  notion_template :: json
  todo_template :: json

definition export_all_formats ::
  "clock \<Rightarrow> templates \<Rightarrow> pydict list \<Rightarrow> (string \<times> json) list \<times> py_error option" where
  "export_all_formats clk ts assignments =
     (case transform_to_sheets_format clk (sheets_template ts) assignments of
        Inl e \<Rightarrow> ([], Some e)
      | Inr sheets_data \<Rightarrow>
          (case transform_to_notion_format (notion_template ts) assignments of
             Inl e \<Rightarrow> ([(''data/google_sheets_export.json'', sheets_data)], Some e)
           | Inr notion_data \<Rightarrow>
               (case transform_to_todo_format clk (todo_template ts) assignments of
                  Inl e \<Rightarrow>
                    ([(''data/google_sheets_export.json'', sheets_data),
                      (''data/notion_export.json'', notion_data)], Some e)
                | Inr todo_data \<Rightarrow>
                    ([(''data/google_sheets_export.json'', sheets_data),
                      (''data/notion_export.json'', notion_data),
                      (''data/todo_export.json'', todo_data)], None))))"

section \<open>Reading a document\<close>

text \<open>The Python expression \<^verbatim>\<open>doc[k][i][slot]\<close>.\<close>

definition read_slot :: "json \<Rightarrow> string \<Rightarrow> nat \<Rightarrow> string \<Rightarrow> py_error + json" where
  "read_slot doc k i slot =
     (case getitem_key doc k of
        Inl e \<Rightarrow> Inl e
      | Inr lst \<Rightarrow>
          (case getitem_idx lst i of
             Inl e \<Rightarrow> Inl e
           | Inr el \<Rightarrow> getitem_key el slot))"

text \<open>A path into a document, and the part of the document it leads to (if any).\<close>

datatype step = Key string | Idx nat

definition child :: "json \<Rightarrow> step \<Rightarrow> json option" where
  "child v s =
     (case (v, s) of
        (JObj d, Key k) \<Rightarrow> map_of d k
      | (JArr xs, Idx i) \<Rightarrow> (if i < length xs then Some (xs ! i) else None)
      | _ \<Rightarrow> None)"

fun subdoc :: "json \<Rightarrow> step list \<Rightarrow> json option" where
  "subdoc v [] = Some v"
| "subdoc v (s # p) = (case child v s of None \<Rightarrow> None | Some c \<Rightarrow> subdoc c p)"

section \<open>The properties, as the specification words them\<close>

subsection \<open>The categorization rule\<close>

datatype bucket = Urgent | Important | Regular

text \<open>The rule chain of the specification: urgent when the days until due are known and at
  most 3; otherwise important when the priority is critical or high; otherwise regular.\<close>

definition bucket_spec :: "clock \<Rightarrow> pydict \<Rightarrow> bucket" where
  "bucket_spec clk a =
     (if (case calculate_days_until_due clk (dict_get a ''due_date'') of
            None \<Rightarrow> False | Some n \<Rightarrow> n \<le> 3) then Urgent
      else if dict_get a ''priority'' \<in> {JStr ''critical'', JStr ''high''} then Important
      else Regular)"

text \<open>The category of the template that holds each bucket.\<close>

definition bucket_index :: "bucket \<Rightarrow> nat" where
  "bucket_index b = (case b of Urgent \<Rightarrow> 0 | Important \<Rightarrow> 1 | Regular \<Rightarrow> 2)"

subsection \<open>The columns of a sheet row\<close>

text \<open>The thirteen columns, each named by the field it shows; the first is the identifier,
  the ninth is derived from the due date.\<close>

definition sheets_columns :: "string list" where
  "sheets_columns =
     [''assignment_id'', ''class_code'', ''class_name'', ''title'', ''type'', ''status'',
      ''assigned_date'', ''due_date'', ''days_until_due'', ''priority'', ''points_possible'',
      ''estimated_hours'', ''url'']"

definition sheets_cell_spec :: "clock \<Rightarrow> pydict \<Rightarrow> string \<Rightarrow> json" where
  "sheets_cell_spec clk a col =
     (if col = ''days_until_due''
      then json_of_days (calculate_days_until_due clk (dict_get a ''due_date''))
      else (case map_of a col of None \<Rightarrow> JStr '''' | Some v \<Rightarrow> v))"

subsection \<open>The properties of a notion page\<close>

text \<open>Each property with the field it shows and what stands in for an absent field.\<close>

definition notion_property_table :: "(string \<times> string \<times> json) list" where
  "notion_property_table =
     [(''Assignment ID'', ''assignment_id'', JStr ''''),
      (''Title'', ''title'', JStr ''''),
      (''Class'', ''class_code'', JStr ''''),
      (''Type'', ''type'', JStr ''''),
      (''Status'', ''status'', JStr ''''),
      (''Priority'', ''priority'', JStr ''''),
      (''Assigned Date'', ''assigned_date'', JStr ''''),
      (''Due Date'', ''due_date'', JStr ''''),
      (''Points'', ''points_possible'', JInt 0),
      (''Estimated Hours'', ''estimated_hours'', JInt 0),
      (''URL'', ''url'', JStr '''')]"

definition field_or :: "pydict \<Rightarrow> string \<Rightarrow> json \<Rightarrow> json" where
  "field_or a k dflt = (case map_of a k of None \<Rightarrow> dflt | Some v \<Rightarrow> v)"

subsection \<open>The fields of a task that have a default\<close>

text \<open>Each field of a task that copies a field of the assignment, with the field it copies
  and what stands in for an absent one.\<close>

definition todo_field_table :: "(string \<times> string \<times> json) list" where
  "todo_field_table =
     [(''description'', ''description'', JStr ''''),
      (''due_date'', ''due_date'', JStr ''''),
      (''priority'', ''priority'', JStr ''medium''),
      (''url'', ''url'', JStr '''')]"

subsection \<open>The slots of the templates\<close>

definition sheets_slot :: "step list" where
  "sheets_slot = [Key ''sheet_tabs'', Idx 0, Key ''rows'']"

definition notion_slot :: "step list" where
  "notion_slot = [Key ''pages'']"

definition todo_slot :: "nat \<Rightarrow> step list" where
  "todo_slot n = [Key ''categories'', Idx n, Key ''tasks'']"

text \<open>A path touches a slot when it leads to the slot, into it, or to one of the parts that
  contain it.\<close>

definition touches :: "step list \<Rightarrow> step list \<Rightarrow> bool" where
  "touches p slot = (prefix p slot \<or> prefix slot p)"

text \<open>What the templates must provide: a dictionary whose list under the given key has
  dictionaries at the first \<open>n\<close> positions.\<close>

definition is_object :: "json \<Rightarrow> bool" where
  "is_object x = (case x of JObj e \<Rightarrow> True | _ \<Rightarrow> False)"

definition has_objects :: "json \<Rightarrow> string \<Rightarrow> nat \<Rightarrow> bool" where
  "has_objects template k n =
     (case template of
        JObj d \<Rightarrow>
          (case map_of d k of
             Some (JArr xs) \<Rightarrow> n \<le> length xs \<and> list_all is_object (take n xs)
           | _ \<Rightarrow> False)
      | _ \<Rightarrow> False)"

subsection \<open>A sample run\<close>

text \<open>The clock at 2025-01-01T00:00:00 UTC on a host in UTC, three assignments due 3, 4 and
  10 days later, and small templates of the three kinds.\<close>

definition sample_clock :: clock where
  "sample_clock = \<lparr>utc_now = 63871286400000000, local_utcoffset = 0\<rparr>"

definition sample_essay :: pydict where
  "sample_essay =
     [(''assignment_id'', JStr ''A1''), (''class_code'', JStr ''CS101''),
      (''title'', JStr ''Essay''), (''due_date'', JStr ''2025-01-04T00:00:00Z''),
      (''priority'', JStr ''low'')]"

definition sample_lab :: pydict where
  "sample_lab =
     [(''assignment_id'', JStr ''A2''), (''class_code'', JStr ''CS101''),
      (''title'', JStr ''Lab''), (''due_date'', JStr ''2025-01-05T00:00:00Z''),
      (''priority'', JStr ''high'')]"

definition sample_quiz :: pydict where
  "sample_quiz =
     [(''assignment_id'', JStr ''A3''), (''class_code'', JStr ''MA201''),
      (''title'', JStr ''Quiz''), (''due_date'', JStr ''2025-01-11T00:00:00Z''),
      (''priority'', JStr ''medium'')]"

definition sample_assignments :: "pydict list" where
  "sample_assignments = [sample_essay, sample_lab, sample_quiz]"

definition sample_sheets_template :: json where
  "sample_sheets_template =
     JObj [(''spreadsheet_name'', JStr ''Tracker''),
           (''sheet_tabs'', JArr [JObj [(''tab_name'', JStr ''All''), (''rows'', JArr [])]])]"

definition sample_notion_template :: json where
  "sample_notion_template = JObj [(''database_name'', JStr ''Tracker''), (''pages'', JArr [])]"

definition sample_todo_template :: json where
  "sample_todo_template =
     JObj [(''list_name'', JStr ''Tracker''),
           (''categories'',
              JArr [JObj [(''name'', JStr ''Urgent''), (''tasks'', JArr [])],
                    JObj [(''name'', JStr ''Important''), (''tasks'', JArr [])],
                    JObj [(''name'', JStr ''Regular''), (''tasks'', JArr [])]])]"

definition sample_templates :: templates where
  "sample_templates =
     \<lparr>sheets_template = sample_sheets_template, notion_template = sample_notion_template,
      todo_template = sample_todo_template\<rparr>"

subsection \<open>The time left\<close>

text \<open>Due date minus now, in microseconds, both read in the zone of the due date.\<close>

definition time_left :: "clock \<Rightarrow> datetime \<Rightarrow> int" where
  "time_left clk due = wall_us due - datetime_now clk (tzinfo due)"

section \<open>Days until due\<close>

lemma fromisoformat_empty: "fromisoformat [] = Inl ValueError"
  by (simp add: fromisoformat_def parse_isoformat_date_def)

lemma replace_Z_empty: "replace_Z s = [] \<longleftrightarrow> s = []"
  by (cases s) (auto simp: replace_Z_def)

lemma calculate_days_parsed:
  assumes "fromisoformat (replace_Z s) = Inr due"
  shows "calculate_days_until_due clk (JStr s) = Some (time_left clk due div us_per_day)"
proof -
  have "s \<noteq> []"
    using assms fromisoformat_empty by (auto simp: replace_Z_def)
  then show ?thesis
    using assms
    by (simp add: calculate_days_until_due_def days_until_due_try_def truthy_def time_left_def)
qed

lemma calculate_days_unparsed:
  assumes "fromisoformat (replace_Z s) = Inl e"
  shows "calculate_days_until_due clk (JStr s) = None"
  using assms by (simp add: calculate_days_until_due_def days_until_due_try_def)

lemma calculate_days_try_error:
  assumes "days_until_due_try clk v = Inl e"
  shows "calculate_days_until_due clk v = None"
  using assms by (simp add: calculate_days_until_due_def)

lemma not_a_date_unparsed: "fromisoformat (replace_Z ''not-a-date'') = Inl ValueError"
  by code_simp

text \<open>
  Claim C5. The function returns none for an absent due date and for a string the parser
  refuses; whatever error the body of the \<^verbatim>\<open>try\<close> raises, for any argument, the result is
  none and no error reaches the caller. In particular \<^verbatim>\<open>None\<close> and \<^verbatim>\<open>"not-a-date"\<close> give
  none.
\<close>

theorem days_until_due_none_without_error:
  "calculate_days_until_due clk JNull = None
   \<and> (\<forall>s e. fromisoformat (replace_Z s) = Inl e \<longrightarrow> calculate_days_until_due clk (JStr s) = None)
   \<and> (\<forall>v e. days_until_due_try clk v = Inl e \<longrightarrow> calculate_days_until_due clk v = None)
   \<and> calculate_days_until_due clk (JStr ''not-a-date'') = None"
proof (intro conjI allI impI)
  show "calculate_days_until_due clk JNull = None"
    by (simp add: calculate_days_until_due_def truthy_def)
next
  fix s e assume "fromisoformat (replace_Z s) = Inl e"
  then show "calculate_days_until_due clk (JStr s) = None"
    by (rule calculate_days_unparsed)
next
  fix v e assume "days_until_due_try clk v = Inl e"
  then show "calculate_days_until_due clk v = None"
    by (rule calculate_days_try_error)
next
  show "calculate_days_until_due clk (JStr ''not-a-date'') = None"
    using not_a_date_unparsed by (rule calculate_days_unparsed)
qed

theorem days_until_due_none_without_error_witness:
  "fromisoformat (replace_Z ''2025-13-01T09:00:00Z'') = Inl ValueError
   \<and> calculate_days_until_due sample_clock (JStr ''2025-13-01T09:00:00Z'') = None
   \<and> days_until_due_try sample_clock (JInt 20250101) = Inl AttributeError
   \<and> calculate_days_until_due sample_clock (JInt 20250101) = None"
proof -
  have p: "fromisoformat (replace_Z ''2025-13-01T09:00:00Z'') = Inl ValueError"
    by code_simp
  have q: "days_until_due_try sample_clock (JInt 20250101) = Inl AttributeError"
    by (simp add: days_until_due_try_def)
  show ?thesis
    using p q days_until_due_none_without_error [of sample_clock] by blast
qed

text \<open>
  Claim C6. For a due date that parses, the result is the floor of (due date minus now)
  in days: the whole days \<open>n\<close> with \<open>n\<close> days at most the difference and the difference less
  than \<open>n + 1\<close> days. So a due date in the past gives a negative number, and a difference
  from zero up to, but less than, one day gives 0.
\<close>

theorem days_until_due_floor:
  assumes "fromisoformat (replace_Z s) = Inr due"
  shows "\<exists>n. calculate_days_until_due clk (JStr s) = Some n
           \<and> n * us_per_day \<le> time_left clk due
           \<and> time_left clk due < (n + 1) * us_per_day
           \<and> (time_left clk due < 0 \<longrightarrow> n < 0)
           \<and> (0 \<le> time_left clk due \<and> time_left clk due < us_per_day \<longrightarrow> n = 0)"
proof -
  define delta where "delta = time_left clk due"
  define n where "n = delta div us_per_day"
  have pos: "0 < us_per_day"
    by (simp add: us_per_day_def)
  have res: "calculate_days_until_due clk (JStr s) = Some n"
    using calculate_days_parsed [OF assms] by (simp add: n_def delta_def)
  have decomp: "delta = n * us_per_day + delta mod us_per_day"
    by (simp add: n_def)
  have lo: "0 \<le> delta mod us_per_day" and hi: "delta mod us_per_day < us_per_day"
    using pos by simp_all
  have low: "n * us_per_day \<le> delta"
    using decomp lo by linarith
  have high: "delta < (n + 1) * us_per_day"
    using decomp hi by (simp add: algebra_simps)
  have neg: "n < 0" if "delta < 0"
    using that pos by (simp add: n_def pos_imp_zdiv_neg_iff)
  have zero: "n = 0" if "0 \<le> delta" "delta < us_per_day"
    using that by (simp add: n_def)
  show ?thesis
    using res low high neg zero unfolding delta_def by blast
qed

theorem days_until_due_floor_witness:
  "fromisoformat (replace_Z ''2024-12-31T23:59:59Z'')
     = Inr \<lparr>year = 2024, month = 12, day = 31, hour = 23, minute = 59, second = 59,
            microsecond = 0, tzinfo = Some 0\<rparr>
   \<and> calculate_days_until_due sample_clock (JStr ''2024-12-31T23:59:59Z'') = Some (- 1)
   \<and> calculate_days_until_due sample_clock (JStr ''2025-01-01T18:30:00Z'') = Some 0"
proof -
  let ?past = "\<lparr>year = 2024, month = 12, day = 31, hour = 23, minute = 59, second = 59,
                 microsecond = 0, tzinfo = Some 0\<rparr>"
  let ?soon = "\<lparr>year = 2025, month = 1, day = 1, hour = 18, minute = 30, second = 0,
                 microsecond = 0, tzinfo = Some 0\<rparr>"
  have p: "fromisoformat (replace_Z ''2024-12-31T23:59:59Z'') = Inr ?past"
    by code_simp
  have q: "fromisoformat (replace_Z ''2025-01-01T18:30:00Z'') = Inr ?soon"
    by code_simp
  have tp: "time_left sample_clock ?past = - 1000000"
    by code_simp
  have tq: "time_left sample_clock ?soon = 66600000000"
    by code_simp
  from days_until_due_floor [OF p, of sample_clock] tp
  have "calculate_days_until_due sample_clock (JStr ''2024-12-31T23:59:59Z'') = Some (- 1)"
    by (auto simp: us_per_day_def)
  moreover from days_until_due_floor [OF q, of sample_clock] tq
  have "calculate_days_until_due sample_clock (JStr ''2025-01-01T18:30:00Z'') = Some 0"
    by (auto simp: us_per_day_def)
  ultimately show ?thesis
    using p by simp
qed

section \<open>Loops and templates\<close>

lemma foldl_snoc_map: "foldl (\<lambda>acc a. acc @ [f a]) acc0 xs = acc0 @ map f xs"
  by (induction xs arbitrary: acc0) simp_all

lemma sheets_rows_map:
  "sheets_rows clk assignments = map (\<lambda>a. JArr (sheets_row clk a)) assignments"
  by (simp add: sheets_rows_def foldl_snoc_map)

lemma notion_pages_map: "notion_pages assignments = map notion_page assignments"
  by (simp add: notion_pages_def foldl_snoc_map)

lemma todo_step_bucket:
  "todo_step clk st a =
     (case bucket_spec clk a of
        Urgent \<Rightarrow> st\<lparr>urgent_important := urgent_important st @ [todo_task a]\<rparr>
      | Important \<Rightarrow> st\<lparr>important_not_urgent := important_not_urgent st @ [todo_task a]\<rparr>
      | Regular \<Rightarrow> st\<lparr>regular := regular st @ [todo_task a]\<rparr>)"
  by (simp add: todo_step_def bucket_spec_def Let_def)

lemma foldl_todo_step:
  "foldl (todo_step clk) st xs =
     \<lparr>urgent_important =
        urgent_important st @ map todo_task (filter (\<lambda>a. bucket_spec clk a = Urgent) xs),
      important_not_urgent =
        important_not_urgent st @ map todo_task (filter (\<lambda>a. bucket_spec clk a = Important) xs),
      regular =
        regular st @ map todo_task (filter (\<lambda>a. bucket_spec clk a = Regular) xs)\<rparr>"
proof (induction xs arbitrary: st)
  case Nil
  show ?case by simp
next
  case (Cons a xs)
  have unroll: "foldl (todo_step clk) st (a # xs) = foldl (todo_step clk) (todo_step clk st a) xs"
    by simp
  show ?case
    unfolding unroll Cons.IH
    by (cases "bucket_spec clk a") (simp_all add: todo_step_bucket)
qed

lemma todo_loop_buckets:
  "todo_loop clk xs =
     \<lparr>urgent_important = map todo_task (filter (\<lambda>a. bucket_spec clk a = Urgent) xs),
      important_not_urgent = map todo_task (filter (\<lambda>a. bucket_spec clk a = Important) xs),
      regular = map todo_task (filter (\<lambda>a. bucket_spec clk a = Regular) xs)\<rparr>"
  by (simp add: todo_loop_def foldl_todo_step)

lemma assign_slot_Inr_iff:
  "assign_slot t k i slot v = Inr t' \<longleftrightarrow>
     (\<exists>d xs e. t = JObj d \<and> map_of d k = Some (JArr xs) \<and> i < length xs \<and> xs ! i = JObj e
        \<and> t' = JObj (AList.update k (JArr (xs[i := JObj (AList.update slot v e)])) d))"
  unfolding assign_slot_def getitem_key_def getitem_idx_def setitem_key_def store_back_def
  by (auto split: json.splits option.splits if_splits)

lemma read_slot_assign_same:
  assumes "assign_slot t k i slot v = Inr t'"
  shows "read_slot t' k i slot = Inr v"
proof -
  from assms obtain d xs e where
    i: "i < length xs"
    and t': "t' = JObj (AList.update k (JArr (xs[i := JObj (AList.update slot v e)])) d)"
    by (auto simp: assign_slot_Inr_iff)
  show ?thesis
    using i by (simp add: t' read_slot_def getitem_key_def getitem_idx_def update_conv')
qed

lemma read_slot_assign_other:
  assumes "assign_slot t k i slot v = Inr t'" and "j \<noteq> i"
  shows "read_slot t' k j slot' = read_slot t k j slot'"
proof -
  from assms obtain d xs e where
    t: "t = JObj d" and k: "map_of d k = Some (JArr xs)" and i: "i < length xs"
    and t': "t' = JObj (AList.update k (JArr (xs[i := JObj (AList.update slot v e)])) d)"
    by (auto simp: assign_slot_Inr_iff)
  show ?thesis
    using i k assms(2)
    by (simp add: t t' read_slot_def getitem_key_def getitem_idx_def update_conv')
qed

lemma assign_slot_overwrite:
  assumes "assign_slot t k i slot v = Inr t'"
  shows "assign_slot t' k i slot w = assign_slot t k i slot w"
proof -
  from assms obtain d xs e where
    t: "t = JObj d" and k: "map_of d k = Some (JArr xs)" and i: "i < length xs"
    and e: "xs ! i = JObj e"
    and t': "t' = JObj (AList.update k (JArr (xs[i := JObj (AList.update slot v e)])) d)"
    by (auto simp: assign_slot_Inr_iff)
  show ?thesis
    using i k e
    by (simp add: t t' assign_slot_def getitem_key_def getitem_idx_def setitem_key_def
        store_back_def update_conv')
qed

lemma fill_categories_reads:
  assumes "fill_categories t u i r = Inr out"
  shows "read_slot out ''categories'' 0 ''tasks'' = Inr u"
    and "read_slot out ''categories'' 1 ''tasks'' = Inr i"
    and "read_slot out ''categories'' 2 ''tasks'' = Inr r"
proof -
  from assms obtain t0 t1 where
    a0: "assign_slot t ''categories'' 0 ''tasks'' u = Inr t0"
    and a1: "assign_slot t0 ''categories'' 1 ''tasks'' i = Inr t1"
    and a2: "assign_slot t1 ''categories'' 2 ''tasks'' r = Inr out"
    by (auto simp: fill_categories_def split: sum.splits)
  have "read_slot out ''categories'' 0 ''tasks'' = read_slot t1 ''categories'' 0 ''tasks''"
    using a2 by (rule read_slot_assign_other) simp
  also have "\<dots> = read_slot t0 ''categories'' 0 ''tasks''"
    using a1 by (rule read_slot_assign_other) simp
  also have "\<dots> = Inr u"
    using a0 by (rule read_slot_assign_same)
  finally show "read_slot out ''categories'' 0 ''tasks'' = Inr u" .
  have "read_slot out ''categories'' 1 ''tasks'' = read_slot t1 ''categories'' 1 ''tasks''"
    using a2 by (rule read_slot_assign_other) simp
  also have "\<dots> = Inr i"
    using a1 by (rule read_slot_assign_same)
  finally show "read_slot out ''categories'' 1 ''tasks'' = Inr i" .
  show "read_slot out ''categories'' 2 ''tasks'' = Inr r"
    using a2 by (rule read_slot_assign_same)
qed

lemma todo_output_buckets:
  assumes "transform_to_todo_format clk t xs = Inr out"
  shows "read_slot out ''categories'' (bucket_index b) ''tasks''
           = Inr (JArr (map todo_task (filter (\<lambda>a. bucket_spec clk a = b) xs)))"
proof -
  from assms have fill:
    "fill_categories t
       (JArr (map todo_task (filter (\<lambda>a. bucket_spec clk a = Urgent) xs)))
       (JArr (map todo_task (filter (\<lambda>a. bucket_spec clk a = Important) xs)))
       (JArr (map todo_task (filter (\<lambda>a. bucket_spec clk a = Regular) xs))) = Inr out"
    by (simp add: transform_to_todo_format_def todo_loop_buckets)
  show ?thesis
    using fill_categories_reads [OF fill] by (cases b) (simp_all add: bucket_index_def)
qed

lemma three_way_mset:
  "mset (map f (filter (\<lambda>a. c a = Urgent) xs)) + mset (map f (filter (\<lambda>a. c a = Important) xs))
     + mset (map f (filter (\<lambda>a. c a = Regular) xs)) = mset (map f xs)"
proof (induction xs)
  case Nil
  show ?case by simp
next
  case (Cons a xs)
  then show ?case by (cases "c a") simp_all
qed

lemma subseq_map_filter: "subseq (map f (filter P xs)) (map f xs)"
  by (simp add: subseq_map)

section \<open>The to-do export\<close>

text \<open>
  Claim C1. The loop sends each assignment to the bucket the rule chain names: urgent when
  the days until due are known and at most 3, otherwise important when the priority is
  critical or high, otherwise regular; the lists it builds, and the task lists of the
  document it returns, are the tasks of the assignments the chain sends there, in input
  order. In particular an assignment due in 3 days is urgent, one due in 4 days with
  priority high is important, and one due in 10 days with priority medium is regular.
\<close>

theorem todo_bucket_rule:
  "todo_loop clk assignments =
     \<lparr>urgent_important =
        map todo_task (filter (\<lambda>a. bucket_spec clk a = Urgent) assignments),
      important_not_urgent =
        map todo_task (filter (\<lambda>a. bucket_spec clk a = Important) assignments),
      regular =
        map todo_task (filter (\<lambda>a. bucket_spec clk a = Regular) assignments)\<rparr>
   \<and> (\<forall>template out b.
         transform_to_todo_format clk template assignments = Inr out \<longrightarrow>
         read_slot out ''categories'' (bucket_index b) ''tasks''
           = Inr (JArr (map todo_task (filter (\<lambda>a. bucket_spec clk a = b) assignments))))
   \<and> (\<forall>a. calculate_days_until_due clk (dict_get a ''due_date'') = Some 3 \<longrightarrow>
         todo_loop clk [a]
           = \<lparr>urgent_important = [todo_task a], important_not_urgent = [], regular = []\<rparr>)
   \<and> (\<forall>a. calculate_days_until_due clk (dict_get a ''due_date'') = Some 4
           \<and> dict_get a ''priority'' = JStr ''high'' \<longrightarrow>
         todo_loop clk [a]
           = \<lparr>urgent_important = [], important_not_urgent = [todo_task a], regular = []\<rparr>)
   \<and> (\<forall>a. calculate_days_until_due clk (dict_get a ''due_date'') = Some 10
           \<and> dict_get a ''priority'' = JStr ''medium'' \<longrightarrow>
         todo_loop clk [a]
           = \<lparr>urgent_important = [], important_not_urgent = [], regular = [todo_task a]\<rparr>)"
proof (intro conjI allI impI)
  show "todo_loop clk assignments =
     \<lparr>urgent_important =
        map todo_task (filter (\<lambda>a. bucket_spec clk a = Urgent) assignments),
      important_not_urgent =
        map todo_task (filter (\<lambda>a. bucket_spec clk a = Important) assignments),
      regular =
        map todo_task (filter (\<lambda>a. bucket_spec clk a = Regular) assignments)\<rparr>"
    by (rule todo_loop_buckets)
next
  fix template out b
  assume "transform_to_todo_format clk template assignments = Inr out"
  then show "read_slot out ''categories'' (bucket_index b) ''tasks''
           = Inr (JArr (map todo_task (filter (\<lambda>a. bucket_spec clk a = b) assignments)))"
    by (rule todo_output_buckets)
next
  fix a
  assume "calculate_days_until_due clk (dict_get a ''due_date'') = Some 3"
  then have "bucket_spec clk a = Urgent"
    by (simp add: bucket_spec_def)
  then show "todo_loop clk [a]
           = \<lparr>urgent_important = [todo_task a], important_not_urgent = [], regular = []\<rparr>"
    by (simp add: todo_loop_buckets)
next
  fix a
  assume "calculate_days_until_due clk (dict_get a ''due_date'') = Some 4
           \<and> dict_get a ''priority'' = JStr ''high''"
  then have "bucket_spec clk a = Important"
    by (simp add: bucket_spec_def)
  then show "todo_loop clk [a]
           = \<lparr>urgent_important = [], important_not_urgent = [todo_task a], regular = []\<rparr>"
    by (simp add: todo_loop_buckets)
next
  fix a
  assume "calculate_days_until_due clk (dict_get a ''due_date'') = Some 10
           \<and> dict_get a ''priority'' = JStr ''medium''"
  then have "bucket_spec clk a = Regular"
    by (simp add: bucket_spec_def)
  then show "todo_loop clk [a]
           = \<lparr>urgent_important = [], important_not_urgent = [], regular = [todo_task a]\<rparr>"
    by (simp add: todo_loop_buckets)
qed

theorem todo_bucket_rule_witness:
  "calculate_days_until_due sample_clock (dict_get sample_essay ''due_date'') = Some 3
   \<and> todo_loop sample_clock [sample_essay]
       = \<lparr>urgent_important = [todo_task sample_essay], important_not_urgent = [], regular = []\<rparr>
   \<and> calculate_days_until_due sample_clock (dict_get sample_lab ''due_date'') = Some 4
   \<and> dict_get sample_lab ''priority'' = JStr ''high''
   \<and> todo_loop sample_clock [sample_lab]
       = \<lparr>urgent_important = [], important_not_urgent = [todo_task sample_lab], regular = []\<rparr>
   \<and> calculate_days_until_due sample_clock (dict_get sample_quiz ''due_date'') = Some 10
   \<and> dict_get sample_quiz ''priority'' = JStr ''medium''
   \<and> todo_loop sample_clock [sample_quiz]
       = \<lparr>urgent_important = [], important_not_urgent = [], regular = [todo_task sample_quiz]\<rparr>
   \<and> \<not> isl (transform_to_todo_format sample_clock sample_todo_template sample_assignments)
   \<and> read_slot (projr (transform_to_todo_format sample_clock sample_todo_template
                          sample_assignments)) ''categories'' 0 ''tasks''
       = Inr (JArr [todo_task sample_essay])
   \<and> read_slot (projr (transform_to_todo_format sample_clock sample_todo_template
                          sample_assignments)) ''categories'' 1 ''tasks''
       = Inr (JArr [todo_task sample_lab])
   \<and> read_slot (projr (transform_to_todo_format sample_clock sample_todo_template
                          sample_assignments)) ''categories'' 2 ''tasks''
       = Inr (JArr [todo_task sample_quiz])"
proof -
  let ?run = "transform_to_todo_format sample_clock sample_todo_template sample_assignments"
  have d1: "calculate_days_until_due sample_clock (dict_get sample_essay ''due_date'') = Some 3"
    by code_simp
  have d2: "calculate_days_until_due sample_clock (dict_get sample_lab ''due_date'') = Some 4"
    by code_simp
  have d3: "calculate_days_until_due sample_clock (dict_get sample_quiz ''due_date'') = Some 10"
    by code_simp
  have p2: "dict_get sample_lab ''priority'' = JStr ''high''"
    by (simp add: dict_get_def sample_lab_def)
  have p3: "dict_get sample_quiz ''priority'' = JStr ''medium''"
    by (simp add: dict_get_def sample_quiz_def)
  have b: "filter (\<lambda>a. bucket_spec sample_clock a = Urgent) sample_assignments = [sample_essay]"
    "filter (\<lambda>a. bucket_spec sample_clock a = Important) sample_assignments = [sample_lab]"
    "filter (\<lambda>a. bucket_spec sample_clock a = Regular) sample_assignments = [sample_quiz]"
    using d1 d2 d3 p2 p3 by (simp_all add: sample_assignments_def bucket_spec_def)
  have ok: "\<not> isl ?run"
    by code_simp
  then obtain out where out: "?run = Inr out"
    by (cases ?run) auto
  note rule = todo_bucket_rule [of sample_clock sample_assignments]
  from rule out have reads:
    "\<forall>b. read_slot out ''categories'' (bucket_index b) ''tasks''
       = Inr (JArr (map todo_task (filter (\<lambda>a. bucket_spec sample_clock a = b) sample_assignments)))"
    by blast
  have r0: "read_slot out ''categories'' 0 ''tasks'' = Inr (JArr [todo_task sample_essay])"
    using reads [rule_format, of Urgent] b by (simp add: bucket_index_def)
  have r1: "read_slot out ''categories'' 1 ''tasks'' = Inr (JArr [todo_task sample_lab])"
    using reads [rule_format, of Important] b by (simp add: bucket_index_def)
  have r2: "read_slot out ''categories'' 2 ''tasks'' = Inr (JArr [todo_task sample_quiz])"
    using reads [rule_format, of Regular] b by (simp add: bucket_index_def)
  have l1: "todo_loop sample_clock [sample_essay]
       = \<lparr>urgent_important = [todo_task sample_essay], important_not_urgent = [], regular = []\<rparr>"
    using todo_bucket_rule [of sample_clock "[]"] d1 by blast
  have l2: "todo_loop sample_clock [sample_lab]
       = \<lparr>urgent_important = [], important_not_urgent = [todo_task sample_lab], regular = []\<rparr>"
    using todo_bucket_rule [of sample_clock "[]"] d2 p2 by blast
  have l3: "todo_loop sample_clock [sample_quiz]
       = \<lparr>urgent_important = [], important_not_urgent = [], regular = [todo_task sample_quiz]\<rparr>"
    using todo_bucket_rule [of sample_clock "[]"] d3 p3 by blast
  show ?thesis
    using d1 d2 d3 p2 p3 l1 l2 l3 ok r0 r1 r2 by (simp add: out)
qed

text \<open>
  Claim C2. When the export returns a document, its three task lists partition the input:
  each is the tasks of the assignments of one bucket, every assignment has exactly one
  bucket, so the three lists together hold the task of every assignment once for each time
  it occurs in the input and nothing else, and each list keeps the relative order of the
  input.
\<close>

theorem todo_buckets_partition:
  assumes "transform_to_todo_format clk template assignments = Inr out"
  shows "\<exists>u i r.
           read_slot out ''categories'' 0 ''tasks'' = Inr (JArr u)
         \<and> read_slot out ''categories'' 1 ''tasks'' = Inr (JArr i)
         \<and> read_slot out ''categories'' 2 ''tasks'' = Inr (JArr r)
         \<and> u = map todo_task (filter (\<lambda>a. bucket_spec clk a = Urgent) assignments)
         \<and> i = map todo_task (filter (\<lambda>a. bucket_spec clk a = Important) assignments)
         \<and> r = map todo_task (filter (\<lambda>a. bucket_spec clk a = Regular) assignments)
         \<and> mset u + mset i + mset r = mset (map todo_task assignments)
         \<and> length u + length i + length r = length assignments
         \<and> subseq u (map todo_task assignments)
         \<and> subseq i (map todo_task assignments)
         \<and> subseq r (map todo_task assignments)"
proof -
  define u where "u = map todo_task (filter (\<lambda>a. bucket_spec clk a = Urgent) assignments)"
  define i where "i = map todo_task (filter (\<lambda>a. bucket_spec clk a = Important) assignments)"
  define r where "r = map todo_task (filter (\<lambda>a. bucket_spec clk a = Regular) assignments)"
  have ru: "read_slot out ''categories'' 0 ''tasks'' = Inr (JArr u)"
    using todo_output_buckets [OF assms, of Urgent] by (simp add: bucket_index_def u_def)
  have ri: "read_slot out ''categories'' 1 ''tasks'' = Inr (JArr i)"
    using todo_output_buckets [OF assms, of Important] by (simp add: bucket_index_def i_def)
  have rr: "read_slot out ''categories'' 2 ''tasks'' = Inr (JArr r)"
    using todo_output_buckets [OF assms, of Regular] by (simp add: bucket_index_def r_def)
  have all: "mset u + mset i + mset r = mset (map todo_task assignments)"
    unfolding u_def i_def r_def by (rule three_way_mset)
  have "size (mset u + mset i + mset r) = size (mset (map todo_task assignments))"
    by (simp only: all)
  then have len: "length u + length i + length r = length assignments"
    by simp
  have ord: "subseq u (map todo_task assignments)" "subseq i (map todo_task assignments)"
    "subseq r (map todo_task assignments)"
    unfolding u_def i_def r_def by (rule subseq_map_filter)+
  show ?thesis
    using ru ri rr all len ord u_def i_def r_def by blast
qed

theorem todo_buckets_partition_witness:
  "\<not> isl (transform_to_todo_format sample_clock sample_todo_template
            [sample_quiz, sample_essay, sample_lab, sample_essay])
   \<and> read_slot (projr (transform_to_todo_format sample_clock sample_todo_template
                          [sample_quiz, sample_essay, sample_lab, sample_essay]))
        ''categories'' 0 ''tasks''
       = Inr (JArr [todo_task sample_essay, todo_task sample_essay])
   \<and> read_slot (projr (transform_to_todo_format sample_clock sample_todo_template
                          [sample_quiz, sample_essay, sample_lab, sample_essay]))
        ''categories'' 1 ''tasks''
       = Inr (JArr [todo_task sample_lab])
   \<and> read_slot (projr (transform_to_todo_format sample_clock sample_todo_template
                          [sample_quiz, sample_essay, sample_lab, sample_essay]))
        ''categories'' 2 ''tasks''
       = Inr (JArr [todo_task sample_quiz])"
proof -
  let ?xs = "[sample_quiz, sample_essay, sample_lab, sample_essay]"
  let ?run = "transform_to_todo_format sample_clock sample_todo_template ?xs"
  have b: "bucket_spec sample_clock sample_essay = Urgent"
    "bucket_spec sample_clock sample_lab = Important"
    "bucket_spec sample_clock sample_quiz = Regular"
    by code_simp+
  have ok: "\<not> isl ?run"
    by code_simp
  then obtain out where out: "?run = Inr out"
    by (cases ?run) auto
  from todo_buckets_partition [OF out] b
  have "read_slot out ''categories'' 0 ''tasks''
          = Inr (JArr [todo_task sample_essay, todo_task sample_essay])
        \<and> read_slot out ''categories'' 1 ''tasks'' = Inr (JArr [todo_task sample_lab])
        \<and> read_slot out ''categories'' 2 ''tasks'' = Inr (JArr [todo_task sample_quiz])"
    by auto
  then show ?thesis
    using ok by (simp add: out)
qed

section \<open>The sheets export\<close>

lemma sheets_row_cells: "sheets_row clk a = map (sheets_cell_spec clk a) sheets_columns"
  by (simp add: sheets_row_def sheets_columns_def sheets_cell_spec_def dict_get_default_def)

lemma length_sheets_row: "length (sheets_row clk a) = 13"
  by (simp add: sheets_row_def)

lemma column_index_cases:
  assumes "(col::nat) < 13"
  shows "col \<in> {0, 1, 2, 3, 4, 5, 6, 7, 8, 9, 10, 11, 12}"
  using assms by (simp add: less_Suc_eq eval_nat_numeral) blast?

lemma sheets_row_field:
  assumes "n < 13" and "n \<noteq> 8"
  shows "sheets_row clk a ! n = field_or a (sheets_columns ! n) (JStr '''')"
  using column_index_cases [OF assms(1)] assms(2)
  by (elim insertE emptyE)
     (simp_all add: sheets_row_def sheets_columns_def dict_get_default_def field_or_def)

lemma sheets_output_rows:
  assumes "transform_to_sheets_format clk t xs = Inr out"
  shows "read_slot out ''sheet_tabs'' 0 ''rows'' = Inr (JArr (map (\<lambda>a. JArr (sheets_row clk a)) xs))"
  using read_slot_assign_same [of t "''sheet_tabs''" 0 "''rows''" _ out] assms
  by (simp add: transform_to_sheets_format_def sheets_rows_map)

text \<open>
  Claim C3. When the export returns a document, the rows of its first tab are one row per
  assignment, in input order. Every row has 13 cells, in the order identifier, class code,
  class name, title, type, status, assigned date, due date, days until due, priority,
  points possible, estimated hours, url. A cell that shows a field of the assignment holds the
  field's value, and the empty string when the assignment has no such field; the ninth cell
  is not a field of the assignment but the days until due derived from the due date, and
  none when they are not known.
\<close>

theorem sheets_rows_shape:
  assumes "transform_to_sheets_format clk template assignments = Inr out"
  shows "read_slot out ''sheet_tabs'' 0 ''rows''
           = Inr (JArr (map (\<lambda>a. JArr (sheets_row clk a)) assignments))
         \<and> length (map (\<lambda>a. JArr (sheets_row clk a)) assignments) = length assignments
         \<and> (\<forall>a. length (sheets_row clk a) = 13)
         \<and> (\<forall>a. sheets_row clk a = map (sheets_cell_spec clk a) sheets_columns)
         \<and> (\<forall>a n v. n < 13 \<and> n \<noteq> 8 \<and> map_of a (sheets_columns ! n) = Some v \<longrightarrow>
               sheets_row clk a ! n = v)
         \<and> (\<forall>a n. n < 13 \<and> n \<noteq> 8 \<and> map_of a (sheets_columns ! n) = None \<longrightarrow>
               sheets_row clk a ! n = JStr '''')
         \<and> (\<forall>a. sheets_row clk a ! 8
               = json_of_days (calculate_days_until_due clk (dict_get a ''due_date'')))"
proof (intro conjI allI impI)
  show "read_slot out ''sheet_tabs'' 0 ''rows''
           = Inr (JArr (map (\<lambda>a. JArr (sheets_row clk a)) assignments))"
    using assms by (rule sheets_output_rows)
next
  show "length (map (\<lambda>a. JArr (sheets_row clk a)) assignments) = length assignments"
    by simp
next
  fix a show "length (sheets_row clk a) = 13"
    by (rule length_sheets_row)
next
  fix a show "sheets_row clk a = map (sheets_cell_spec clk a) sheets_columns"
    by (rule sheets_row_cells)
next
  fix a :: pydict and n :: nat and v :: json
  assume "n < 13 \<and> n \<noteq> 8 \<and> map_of a (sheets_columns ! n) = Some v"
  then show "sheets_row clk a ! n = v"
    by (simp add: sheets_row_field field_or_def)
next
  fix a :: pydict and n :: nat
  assume "n < 13 \<and> n \<noteq> 8 \<and> map_of a (sheets_columns ! n) = None"
  then show "sheets_row clk a ! n = JStr ''''"
    by (simp add: sheets_row_field field_or_def)
next
  fix a show "sheets_row clk a ! 8
               = json_of_days (calculate_days_until_due clk (dict_get a ''due_date''))"
    by (simp add: sheets_row_def)
qed

theorem sheets_rows_shape_witness:
  "\<not> isl (transform_to_sheets_format sample_clock sample_sheets_template [sample_essay, []])
   \<and> read_slot (projr (transform_to_sheets_format sample_clock sample_sheets_template
                          [sample_essay, []])) ''sheet_tabs'' 0 ''rows''
       = Inr (JArr
           [JArr [JStr ''A1'', JStr ''CS101'', JStr '''', JStr ''Essay'', JStr '''', JStr '''',
                  JStr '''', JStr ''2025-01-04T00:00:00Z'', JInt 3, JStr ''low'', JStr '''',
                  JStr '''', JStr ''''],
            JArr [JStr '''', JStr '''', JStr '''', JStr '''', JStr '''', JStr '''', JStr '''',
                  JStr '''', JNull, JStr '''', JStr '''', JStr '''', JStr '''']])
   \<and> map_of sample_essay (sheets_columns ! 2) = None
   \<and> sheets_row sample_clock sample_essay ! 2 = JStr ''''"
proof -
  let ?run = "transform_to_sheets_format sample_clock sample_sheets_template [sample_essay, []]"
  have ok: "\<not> isl ?run"
    by code_simp
  then obtain out where out: "?run = Inr out"
    by (cases ?run) auto
  have row1: "sheets_row sample_clock sample_essay
      = [JStr ''A1'', JStr ''CS101'', JStr '''', JStr ''Essay'', JStr '''', JStr '''',
         JStr '''', JStr ''2025-01-04T00:00:00Z'', JInt 3, JStr ''low'', JStr '''',
         JStr '''', JStr '''']"
    by code_simp
  have row2: "sheets_row sample_clock []
      = [JStr '''', JStr '''', JStr '''', JStr '''', JStr '''', JStr '''', JStr '''',
         JStr '''', JNull, JStr '''', JStr '''', JStr '''', JStr '''']"
    by code_simp
  have absent: "map_of sample_essay (sheets_columns ! 2) = None"
    by (simp add: sample_essay_def sheets_columns_def)
  note shape = sheets_rows_shape [OF out]
  from shape have rows: "read_slot out ''sheet_tabs'' 0 ''rows''
      = Inr (JArr (map (\<lambda>a. JArr (sheets_row sample_clock a)) [sample_essay, []]))"
    by blast
  from shape have "\<forall>a n. n < 13 \<and> n \<noteq> 8 \<and> map_of a (sheets_columns ! n) = None \<longrightarrow>
               sheets_row sample_clock a ! n = JStr ''''"
    by blast
  from this [rule_format, of 2 sample_essay] absent
  have cell: "sheets_row sample_clock sample_essay ! 2 = JStr ''''"
    by simp
  show ?thesis
    using ok rows cell absent by (simp add: out row1 row2)
qed

section \<open>The notion export\<close>

lemma notion_properties_table:
  "notion_properties a
     = map (\<lambda>(prop, key, dflt). (prop, field_or a key dflt)) notion_property_table
       @ [(''Tags'', JArr [])]"
  by (simp add: notion_properties_def notion_property_table_def field_or_def
      dict_get_default_def)

lemma notion_property_lookup:
  assumes "(prop, key, dflt) \<in> set notion_property_table"
  shows "getitem_key (JObj (notion_properties a)) prop = Inr (field_or a key dflt)"
proof -
  have "\<forall>(p, k, d) \<in> set notion_property_table.
          getitem_key (JObj (notion_properties a)) p = Inr (field_or a k d)"
    by (simp add: notion_property_table_def notion_properties_def getitem_key_def field_or_def
        dict_get_default_def)
  with assms show ?thesis
    by blast
qed

lemma notion_property_default:
  assumes "(prop, key, dflt) \<in> set notion_property_table"
  shows "dflt = (if key = ''points_possible'' \<or> key = ''estimated_hours'' then JInt 0 else JStr '''')"
proof -
  have "\<forall>(p, k, d) \<in> set notion_property_table.
          d = (if k = ''points_possible'' \<or> k = ''estimated_hours'' then JInt 0 else JStr '''')"
    by (simp add: notion_property_table_def)
  with assms show ?thesis
    by blast
qed

lemma notion_page_parts:
  "getitem_key (notion_page a) ''page_id''
     = Inr (JStr (''page_'' @ py_str (dict_get a ''assignment_id'')))"
  "getitem_key (notion_page a) ''properties'' = Inr (JObj (notion_properties a))"
  "getitem_key (notion_page a) ''content'' = Inr (JArr (notion_content a))"
  by (simp_all add: notion_page_def getitem_key_def)

lemma notion_output_pages:
  assumes "transform_to_notion_format t xs = Inr out"
  shows "getitem_key out ''pages'' = Inr (JArr (map notion_page xs))"
  using assms
  by (auto simp: transform_to_notion_format_def setitem_key_def getitem_key_def
      notion_pages_map update_conv' split: json.splits)

text \<open>
  Claim C4. When the export returns a document, its pages are one page per assignment, in
  input order. The page identifier is \<^verbatim>\<open>page_\<close> followed by the identifier of the assignment
  (as printed; the identifier itself when it is a string). Each property that shows a field
  holds the field's value; when the field is absent, points and estimated hours hold 0 and
  every other such property holds the empty string. The content is the heading Description,
  a paragraph with the description (empty when absent), the heading Checklist, and one
  unchecked to-do item.
\<close>

theorem notion_pages_shape:
  assumes "transform_to_notion_format template assignments = Inr out"
  shows "getitem_key out ''pages'' = Inr (JArr (map notion_page assignments))
         \<and> length (map notion_page assignments) = length assignments
         \<and> (\<forall>a. getitem_key (notion_page a) ''page_id''
                  = Inr (JStr (''page_'' @ py_str (dict_get a ''assignment_id''))))
         \<and> (\<forall>a s. map_of a ''assignment_id'' = Some (JStr s) \<longrightarrow>
                  getitem_key (notion_page a) ''page_id'' = Inr (JStr (''page_'' @ s)))
         \<and> (\<forall>a. getitem_key (notion_page a) ''properties'' = Inr (JObj (notion_properties a)))
         \<and> (\<forall>a. map fst (notion_properties a) = map fst notion_property_table @ [''Tags''])
         \<and> (\<forall>a prop key dflt v.
               (prop, key, dflt) \<in> set notion_property_table \<and> map_of a key = Some v \<longrightarrow>
               getitem_key (JObj (notion_properties a)) prop = Inr v)
         \<and> (\<forall>a prop key dflt.
               (prop, key, dflt) \<in> set notion_property_table \<and> map_of a key = None \<longrightarrow>
               getitem_key (JObj (notion_properties a)) prop
                 = Inr (if key = ''points_possible'' \<or> key = ''estimated_hours''
                        then JInt 0 else JStr ''''))
         \<and> (\<forall>a. getitem_key (notion_page a) ''content''
                  = Inr (JArr
                      [JObj [(''type'', JStr ''heading_2''), (''text'', JStr ''Description'')],
                       JObj [(''type'', JStr ''paragraph''),
                             (''text'', field_or a ''description'' (JStr ''''))],
                       JObj [(''type'', JStr ''heading_2''), (''text'', JStr ''Checklist'')],
                       JObj [(''type'', JStr ''to_do''), (''text'', JStr ''Complete assignment''),
                             (''checked'', JBool False)]]))"
proof (intro conjI allI impI)
  show "getitem_key out ''pages'' = Inr (JArr (map notion_page assignments))"
    using assms by (rule notion_output_pages)
next
  show "length (map notion_page assignments) = length assignments"
    by simp
next
  fix a :: pydict
  show "getitem_key (notion_page a) ''page_id''
          = Inr (JStr (''page_'' @ py_str (dict_get a ''assignment_id'')))"
    by (rule notion_page_parts)
next
  fix a :: pydict and s
  assume "map_of a ''assignment_id'' = Some (JStr s)"
  then show "getitem_key (notion_page a) ''page_id'' = Inr (JStr (''page_'' @ s))"
    by (simp add: notion_page_parts dict_get_def py_str_def)
next
  fix a :: pydict
  show "getitem_key (notion_page a) ''properties'' = Inr (JObj (notion_properties a))"
    by (rule notion_page_parts)
next
  fix a :: pydict
  show "map fst (notion_properties a) = map fst notion_property_table @ [''Tags'']"
    by (simp add: notion_properties_def notion_property_table_def)
next
  fix a :: pydict and pr :: string and k :: string and d :: json and v :: json
  assume "(pr, k, d) \<in> set notion_property_table \<and> map_of a k = Some v"
  then show "getitem_key (JObj (notion_properties a)) pr = Inr v"
    using notion_property_lookup [of pr k d a] by (simp add: field_or_def)
next
  fix a :: pydict and pr :: string and k :: string and d :: json
  assume h: "(pr, k, d) \<in> set notion_property_table \<and> map_of a k = None"
  then have "getitem_key (JObj (notion_properties a)) pr = Inr d"
    using notion_property_lookup [of pr k d a] by (simp add: field_or_def)
  then show "getitem_key (JObj (notion_properties a)) pr
                 = Inr (if k = ''points_possible'' \<or> k = ''estimated_hours''
                        then JInt 0 else JStr '''')"
    using notion_property_default [of pr k d] h by simp
next
  fix a :: pydict
  show "getitem_key (notion_page a) ''content''
                  = Inr (JArr
                      [JObj [(''type'', JStr ''heading_2''), (''text'', JStr ''Description'')],
                       JObj [(''type'', JStr ''paragraph''),
                             (''text'', field_or a ''description'' (JStr ''''))],
                       JObj [(''type'', JStr ''heading_2''), (''text'', JStr ''Checklist'')],
                       JObj [(''type'', JStr ''to_do''), (''text'', JStr ''Complete assignment''),
                             (''checked'', JBool False)]])"
    by (simp add: notion_page_parts notion_content_def field_or_def dict_get_default_def)
qed

theorem notion_pages_shape_witness:
  "\<not> isl (transform_to_notion_format sample_notion_template [sample_essay, sample_lab])
   \<and> getitem_key (projr (transform_to_notion_format sample_notion_template
                            [sample_essay, sample_lab])) ''pages''
       = Inr (JArr [notion_page sample_essay, notion_page sample_lab])
   \<and> getitem_key (notion_page sample_essay) ''page_id'' = Inr (JStr ''page_A1'')
   \<and> getitem_key (JObj (notion_properties sample_essay)) ''Priority'' = Inr (JStr ''low'')
   \<and> getitem_key (JObj (notion_properties sample_essay)) ''Status'' = Inr (JStr '''')
   \<and> getitem_key (JObj (notion_properties sample_essay)) ''Points'' = Inr (JInt 0)"
proof -
  let ?run = "transform_to_notion_format sample_notion_template [sample_essay, sample_lab]"
  have ok: "\<not> isl ?run"
    by (simp add: transform_to_notion_format_def sample_notion_template_def setitem_key_def)
  then obtain out where out: "?run = Inr out"
    by (cases ?run) auto
  note shape = notion_pages_shape [OF out]
  have ident: "map_of sample_essay ''assignment_id'' = Some (JStr ''A1'')"
    and prio: "map_of sample_essay ''priority'' = Some (JStr ''low'')"
    and status: "map_of sample_essay ''status'' = None"
    and points: "map_of sample_essay ''points_possible'' = None"
    by (simp_all add: sample_essay_def)
  have rows: "(''Priority'', ''priority'', JStr '''') \<in> set notion_property_table"
    "(''Status'', ''status'', JStr '''') \<in> set notion_property_table"
    "(''Points'', ''points_possible'', JInt 0) \<in> set notion_property_table"
    by (simp_all add: notion_property_table_def)
  from shape have pages: "getitem_key out ''pages''
      = Inr (JArr (map notion_page [sample_essay, sample_lab]))"
    by blast
  from shape ident have pid: "getitem_key (notion_page sample_essay) ''page_id''
      = Inr (JStr (''page_'' @ ''A1''))"
    by blast
  from shape rows(1) prio
  have c1: "getitem_key (JObj (notion_properties sample_essay)) ''Priority'' = Inr (JStr ''low'')"
    by blast
  from shape rows(2) status
  have "getitem_key (JObj (notion_properties sample_essay)) ''Status''
      = Inr (if ''status'' = ''points_possible'' \<or> ''status'' = ''estimated_hours''
             then JInt 0 else JStr '''')"
    by blast
  then have c2: "getitem_key (JObj (notion_properties sample_essay)) ''Status'' = Inr (JStr '''')"
    by simp
  from shape rows(3) points
  have "getitem_key (JObj (notion_properties sample_essay)) ''Points''
      = Inr (if ''points_possible'' = ''points_possible'' \<or> ''points_possible'' = ''estimated_hours''
             then JInt 0 else JStr '''')"
    by blast
  then have c3: "getitem_key (JObj (notion_properties sample_essay)) ''Points'' = Inr (JInt 0)"
    by simp
  show ?thesis
    using ok pages pid c1 c2 c3 by (simp add: out)
qed

section \<open>Defaults for absent fields\<close>

lemma todo_task_fields:
  "getitem_key (todo_task a) ''description'' = Inr (field_or a ''description'' (JStr ''''))"
  "getitem_key (todo_task a) ''due_date'' = Inr (field_or a ''due_date'' (JStr ''''))"
  "getitem_key (todo_task a) ''priority'' = Inr (field_or a ''priority'' (JStr ''medium''))"
  "getitem_key (todo_task a) ''url'' = Inr (field_or a ''url'' (JStr ''''))"
  "getitem_key (todo_task a) ''estimated_time''
     = Inr (JStr (py_str (field_or a ''estimated_hours'' (JInt 0)) @ '' hours''))"
  "getitem_key (todo_task a) ''tags''
     = Inr (JArr [field_or a ''type'' (JStr ''''), field_or a ''class_code'' (JStr '''')])"
  "getitem_key (todo_task a) ''task_id''
     = Inr (JStr (''task_'' @ py_str (dict_get a ''assignment_id'')))"
  "getitem_key (todo_task a) ''title''
     = Inr (JStr (py_str (dict_get a ''class_code'') @ '': '' @ py_str (dict_get a ''title'')))"
  by (simp_all add: todo_task_def getitem_key_def field_or_def dict_get_default_def)

lemma todo_field_lookup:
  assumes "(field, key, dflt) \<in> set todo_field_table"
  shows "getitem_key (todo_task a) field = Inr (field_or a key dflt)"
proof -
  have "\<forall>(f, k, d) \<in> set todo_field_table. getitem_key (todo_task a) f = Inr (field_or a k d)"
    by (simp add: todo_field_table_def todo_task_fields)
  with assms show ?thesis
    by blast
qed

lemma todo_field_default:
  assumes "(field, key, dflt) \<in> set todo_field_table"
  shows "dflt = (if key = ''priority'' then JStr ''medium'' else JStr '''')"
proof -
  have "\<forall>(f, k, d) \<in> set todo_field_table.
          d = (if k = ''priority'' then JStr ''medium'' else JStr '''')"
    by (simp add: todo_field_table_def)
  with assms show ?thesis
    by blast
qed

lemma py_str_zero: "py_str (JInt 0) = ''0''"
  by (simp add: py_str_def int_str_def)

text \<open>
  Claim C7, as the code has it. The claim as stated fails: in the to-do export an absent
  priority becomes \<^verbatim>\<open>medium\<close>, which is neither the empty string nor zero, and the title is
  composed from the class code and the title of the assignment as they print, so that these
  two fields are read for a derived name just as the identifier is.
\<close>

theorem absent_priority_counterexample:
  "map_of ([] :: pydict) ''priority'' = None
   \<and> getitem_key (todo_task []) ''priority'' = Inr (JStr ''medium'')
   \<and> getitem_key (todo_task []) ''priority'' \<noteq> Inr (JStr '''')
   \<and> getitem_key (todo_task []) ''priority'' \<noteq> Inr (JInt 0)
   \<and> getitem_key (todo_task []) ''title'' = Inr (JStr ''None: None'')"
  by (simp add: todo_task_fields field_or_def dict_get_def py_str_def)

text \<open>
  Claim C7, amended. For every assignment, a field that is absent defaults as follows. In
  the sheets row every cell that shows a field is the empty string. In the notion page,
  points and estimated hours are 0, every other property that shows a field is the empty
  string, and the description paragraph is empty. In the to-do task, description, due date
  and url are the empty string, the two tags (type and class code) are the empty string,
  estimated hours count as 0 (printed \<^verbatim>\<open>0 hours\<close>), and the priority is \<^verbatim>\<open>medium\<close>.
  Nothing is said of the derived names (page identifier, task identifier, to-do title) or of
  the derived days-until-due cell.
\<close>

theorem absent_fields_default:
  "(\<forall>n. n < 13 \<and> n \<noteq> 8 \<and> map_of a (sheets_columns ! n) = None \<longrightarrow>
        sheets_row clk a ! n = JStr '''')
   \<and> (\<forall>prop key dflt.
         (prop, key, dflt) \<in> set notion_property_table \<and> map_of a key = None \<longrightarrow>
         getitem_key (JObj (notion_properties a)) prop
           = Inr (if key = ''points_possible'' \<or> key = ''estimated_hours''
                  then JInt 0 else JStr ''''))
   \<and> (map_of a ''description'' = None \<longrightarrow>
         notion_content a ! 1 = JObj [(''type'', JStr ''paragraph''), (''text'', JStr '''')])
   \<and> (\<forall>field key dflt.
         (field, key, dflt) \<in> set todo_field_table \<and> map_of a key = None \<longrightarrow>
         getitem_key (todo_task a) field
           = Inr (if key = ''priority'' then JStr ''medium'' else JStr ''''))
   \<and> (map_of a ''estimated_hours'' = None \<longrightarrow>
         getitem_key (todo_task a) ''estimated_time'' = Inr (JStr ''0 hours''))
   \<and> (map_of a ''type'' = None \<longrightarrow>
         getitem_key (todo_task a) ''tags''
           = Inr (JArr [JStr '''', field_or a ''class_code'' (JStr '''')]))
   \<and> (map_of a ''class_code'' = None \<longrightarrow>
         getitem_key (todo_task a) ''tags''
           = Inr (JArr [field_or a ''type'' (JStr ''''), JStr '''']))"
proof (intro conjI allI impI)
  fix n :: nat
  assume "n < 13 \<and> n \<noteq> 8 \<and> map_of a (sheets_columns ! n) = None"
  then show "sheets_row clk a ! n = JStr ''''"
    by (simp add: sheets_row_field field_or_def)
next
  fix pr k :: string and d :: json
  assume h: "(pr, k, d) \<in> set notion_property_table \<and> map_of a k = None"
  then have "getitem_key (JObj (notion_properties a)) pr = Inr d"
    using notion_property_lookup [of pr k d a] by (simp add: field_or_def)
  then show "getitem_key (JObj (notion_properties a)) pr
           = Inr (if k = ''points_possible'' \<or> k = ''estimated_hours''
                  then JInt 0 else JStr '''')"
    using notion_property_default [of pr k d] h by simp
next
  assume "map_of a ''description'' = None"
  then show "notion_content a ! 1 = JObj [(''type'', JStr ''paragraph''), (''text'', JStr '''')]"
    by (simp add: notion_content_def dict_get_default_def)
next
  fix f k :: string and d :: json
  assume h: "(f, k, d) \<in> set todo_field_table \<and> map_of a k = None"
  then have "getitem_key (todo_task a) f = Inr d"
    using todo_field_lookup [of f k d a] by (simp add: field_or_def)
  then show "getitem_key (todo_task a) f
           = Inr (if k = ''priority'' then JStr ''medium'' else JStr '''')"
    using todo_field_default [of f k d] h by simp
next
  assume "map_of a ''estimated_hours'' = None"
  then show "getitem_key (todo_task a) ''estimated_time'' = Inr (JStr ''0 hours'')"
    by (simp add: todo_task_fields field_or_def py_str_zero)
next
  assume "map_of a ''type'' = None"
  then show "getitem_key (todo_task a) ''tags''
           = Inr (JArr [JStr '''', field_or a ''class_code'' (JStr '''')])"
    by (simp add: todo_task_fields field_or_def)
next
  assume "map_of a ''class_code'' = None"
  then show "getitem_key (todo_task a) ''tags''
           = Inr (JArr [field_or a ''type'' (JStr ''''), JStr ''''])"
    by (simp add: todo_task_fields field_or_def)
qed

theorem absent_fields_default_witness:
  "map_of sample_essay (sheets_columns ! 5) = None
   \<and> sheets_row sample_clock sample_essay ! 5 = JStr ''''
   \<and> map_of sample_essay ''estimated_hours'' = None
   \<and> getitem_key (JObj (notion_properties sample_essay)) ''Estimated Hours'' = Inr (JInt 0)
   \<and> getitem_key (todo_task sample_essay) ''estimated_time'' = Inr (JStr ''0 hours'')
   \<and> map_of sample_essay ''description'' = None
   \<and> notion_content sample_essay ! 1 = JObj [(''type'', JStr ''paragraph''), (''text'', JStr '''')]
   \<and> getitem_key (todo_task sample_essay) ''description'' = Inr (JStr '''')
   \<and> map_of sample_essay ''type'' = None
   \<and> getitem_key (todo_task sample_essay) ''tags'' = Inr (JArr [JStr '''', JStr ''CS101''])"
proof -
  note dflt = absent_fields_default [of sample_essay sample_clock]
  have absent: "map_of sample_essay (sheets_columns ! 5) = None"
    "map_of sample_essay ''estimated_hours'' = None"
    "map_of sample_essay ''description'' = None"
    "map_of sample_essay ''type'' = None"
    by (simp_all add: sample_essay_def sheets_columns_def)
  have rows: "(''Estimated Hours'', ''estimated_hours'', JInt 0) \<in> set notion_property_table"
    "(''description'', ''description'', JStr '''') \<in> set todo_field_table"
    by (simp_all add: notion_property_table_def todo_field_table_def)
  have code: "field_or sample_essay ''class_code'' (JStr '''') = JStr ''CS101''"
    by (simp add: field_or_def sample_essay_def)
  from dflt have "\<forall>n. n < 13 \<and> n \<noteq> 8 \<and> map_of sample_essay (sheets_columns ! n) = None \<longrightarrow>
        sheets_row sample_clock sample_essay ! n = JStr ''''"
    by blast
  from this [rule_format, of 5] absent(1)
  have c1: "sheets_row sample_clock sample_essay ! 5 = JStr ''''"
    by simp
  from dflt rows(1) absent(2)
  have "getitem_key (JObj (notion_properties sample_essay)) ''Estimated Hours''
      = Inr (if ''estimated_hours'' = ''points_possible'' \<or> ''estimated_hours'' = ''estimated_hours''
             then JInt 0 else JStr '''')"
    by blast
  then have c2: "getitem_key (JObj (notion_properties sample_essay)) ''Estimated Hours''
      = Inr (JInt 0)"
    by simp
  from dflt absent(2)
  have c3: "getitem_key (todo_task sample_essay) ''estimated_time'' = Inr (JStr ''0 hours'')"
    by blast
  from dflt absent(3)
  have c4: "notion_content sample_essay ! 1
      = JObj [(''type'', JStr ''paragraph''), (''text'', JStr '''')]"
    by blast
  from dflt rows(2) absent(3)
  have "getitem_key (todo_task sample_essay) ''description''
      = Inr (if ''description'' = ''priority'' then JStr ''medium'' else JStr '''')"
    by blast
  then have c5: "getitem_key (todo_task sample_essay) ''description'' = Inr (JStr '''')"
    by simp
  from dflt absent(4)
  have "getitem_key (todo_task sample_essay) ''tags''
      = Inr (JArr [JStr '''', field_or sample_essay ''class_code'' (JStr '''')])"
    by blast
  then have c6: "getitem_key (todo_task sample_essay) ''tags''
      = Inr (JArr [JStr '''', JStr ''CS101''])"
    by (simp add: code)
  show ?thesis
    using absent c1 c2 c3 c4 c5 c6 by simp
qed

section \<open>What the exports leave alone\<close>

lemma child_update_other:
  assumes "s \<noteq> Key k"
  shows "child (JObj (AList.update k v d)) s = child (JObj d) s"
  using assms by (cases s) (simp_all add: child_def update_conv')

lemma child_update_same: "child (JObj (AList.update k v d)) (Key k) = Some v"
  by (simp add: child_def update_conv')

lemma child_list_update_other:
  assumes "s \<noteq> Idx i"
  shows "child (JArr (xs[i := v])) s = child (JArr xs) s"
  using assms by (cases s) (simp_all add: child_def)

lemma subdoc_update_frame:
  assumes "\<not> touches p [Key k]"
  shows "subdoc (JObj (AList.update k v d)) p = subdoc (JObj d) p"
proof (cases p)
  case Nil
  with assms show ?thesis by (simp add: touches_def)
next
  case (Cons s p')
  with assms have "s \<noteq> Key k"
    by (auto simp: touches_def)
  then show ?thesis
    by (simp add: Cons child_update_other)
qed

lemma subdoc_element_frame:
  assumes "\<not> touches p [Idx i, Key slot]" and "i < length xs" and "xs ! i = JObj e"
  shows "subdoc (JArr (xs[i := JObj (AList.update slot v e)])) p = subdoc (JArr xs) p"
proof (cases p)
  case Nil
  with assms show ?thesis by (simp add: touches_def)
next
  case (Cons s p')
  show ?thesis
  proof (cases "s = Idx i")
    case False
    then show ?thesis
      by (simp add: Cons child_list_update_other)
  next
    case True
    with assms(1) Cons have "\<not> touches p' [Key slot]"
      by (auto simp: touches_def)
    then have "subdoc (JObj (AList.update slot v e)) p' = subdoc (JObj e) p'"
      by (rule subdoc_update_frame)
    then show ?thesis
      using assms(2,3) by (simp add: Cons True child_def)
  qed
qed

lemma subdoc_assign_slot_frame:
  assumes "assign_slot t k i slot v = Inr t'" and "\<not> touches p [Key k, Idx i, Key slot]"
  shows "subdoc t' p = subdoc t p"
proof -
  from assms(1) obtain d xs e where
    t: "t = JObj d" and k: "map_of d k = Some (JArr xs)" and i: "i < length xs"
    and e: "xs ! i = JObj e"
    and t': "t' = JObj (AList.update k (JArr (xs[i := JObj (AList.update slot v e)])) d)"
    by (auto simp: assign_slot_Inr_iff)
  show ?thesis
  proof (cases p)
    case Nil
    with assms(2) show ?thesis by (simp add: touches_def)
  next
    case (Cons s p')
    show ?thesis
    proof (cases "s = Key k")
      case False
      then show ?thesis
        by (simp add: Cons t t' child_update_other)
    next
      case True
      with assms(2) Cons have "\<not> touches p' [Idx i, Key slot]"
        by (auto simp: touches_def)
      then have "subdoc (JArr (xs[i := JObj (AList.update slot v e)])) p' = subdoc (JArr xs) p'"
        using i e by (rule subdoc_element_frame)
      then show ?thesis
        using k by (simp add: Cons True t t' child_update_same) (simp add: child_def)
    qed
  qed
qed

lemma subdoc_setitem_frame:
  assumes "setitem_key t k v = Inr t'" and "\<not> touches p [Key k]"
  shows "subdoc t' p = subdoc t p"
proof -
  from assms(1) obtain d where "t = JObj d" and "t' = JObj (AList.update k v d)"
    by (auto simp: setitem_key_def split: json.splits)
  then show ?thesis
    using subdoc_update_frame [OF assms(2)] by simp
qed

lemma setitem_key_overwrite:
  assumes "setitem_key t k v = Inr t'"
  shows "setitem_key t' k w = setitem_key t k w"
  using assms by (auto simp: setitem_key_def split: json.splits)

lemma fill_categories_steps:
  assumes "fill_categories t u i r = Inr out"
  obtains t0 t1 where
    "assign_slot t ''categories'' 0 ''tasks'' u = Inr t0"
    "assign_slot t0 ''categories'' 1 ''tasks'' i = Inr t1"
    "assign_slot t1 ''categories'' 2 ''tasks'' r = Inr out"
  using assms by (auto simp: fill_categories_def split: sum.splits)

lemma fill_categories_Inr_iff:
  "fill_categories t u i r = Inr out \<longleftrightarrow>
     (\<exists>d xs e0 e1 e2.
        t = JObj d \<and> map_of d ''categories'' = Some (JArr xs) \<and> 2 < length xs
        \<and> xs ! 0 = JObj e0 \<and> xs ! 1 = JObj e1 \<and> xs ! 2 = JObj e2
        \<and> out = JObj (AList.update ''categories''
                   (JArr (xs[0 := JObj (AList.update ''tasks'' u e0),
                             1 := JObj (AList.update ''tasks'' i e1),
                             2 := JObj (AList.update ''tasks'' r e2)])) d))"
  (is "?lhs \<longleftrightarrow> ?rhs")
proof
  assume ?lhs
  then obtain t0 t1 where
    a0: "assign_slot t ''categories'' 0 ''tasks'' u = Inr t0"
    and a1: "assign_slot t0 ''categories'' 1 ''tasks'' i = Inr t1"
    and a2: "assign_slot t1 ''categories'' 2 ''tasks'' r = Inr out"
    by (rule fill_categories_steps)
  from a0 obtain d xs e0 where
    t: "t = JObj d" and k: "map_of d ''categories'' = Some (JArr xs)" and x0: "xs ! 0 = JObj e0"
    and t0: "t0 = JObj (AList.update ''categories''
                   (JArr (xs[0 := JObj (AList.update ''tasks'' u e0)])) d)"
    by (auto simp: assign_slot_Inr_iff)
  from a1 obtain e1 where
    l1: "1 < length xs" and x1: "xs ! 1 = JObj e1"
    and t1: "t1 = JObj (AList.update ''categories''
                   (JArr (xs[0 := JObj (AList.update ''tasks'' u e0),
                             1 := JObj (AList.update ''tasks'' i e1)])) d)"
    unfolding t0 by (auto simp: assign_slot_Inr_iff update_conv')
  from a2 obtain e2 where
    l2: "2 < length xs" and x2: "xs ! 2 = JObj e2"
    and out: "out = JObj (AList.update ''categories''
                   (JArr (xs[0 := JObj (AList.update ''tasks'' u e0),
                             1 := JObj (AList.update ''tasks'' i e1),
                             2 := JObj (AList.update ''tasks'' r e2)])) d)"
    unfolding t1 by (auto simp: assign_slot_Inr_iff update_conv')
  show ?rhs
    using t k l2 x0 x1 x2 out by blast
next
  assume ?rhs
  then obtain d xs e0 e1 e2 where
    t: "t = JObj d" and k: "map_of d ''categories'' = Some (JArr xs)" and l: "2 < length xs"
    and x0: "xs ! 0 = JObj e0" and x1: "xs ! 1 = JObj e1" and x2: "xs ! 2 = JObj e2"
    and out: "out = JObj (AList.update ''categories''
                   (JArr (xs[0 := JObj (AList.update ''tasks'' u e0),
                             1 := JObj (AList.update ''tasks'' i e1),
                             2 := JObj (AList.update ''tasks'' r e2)])) d)"
    by blast
  have a0: "assign_slot t ''categories'' 0 ''tasks'' u
      = Inr (JObj (AList.update ''categories''
                   (JArr (xs[0 := JObj (AList.update ''tasks'' u e0)])) d))"
    using t k l x0 by (auto simp: assign_slot_Inr_iff)
  have a1: "assign_slot (JObj (AList.update ''categories''
                   (JArr (xs[0 := JObj (AList.update ''tasks'' u e0)])) d))
        ''categories'' 1 ''tasks'' i
      = Inr (JObj (AList.update ''categories''
                   (JArr (xs[0 := JObj (AList.update ''tasks'' u e0),
                             1 := JObj (AList.update ''tasks'' i e1)])) d))"
    using l x1 by (simp add: assign_slot_Inr_iff update_conv')
  have a2: "assign_slot (JObj (AList.update ''categories''
                   (JArr (xs[0 := JObj (AList.update ''tasks'' u e0),
                             1 := JObj (AList.update ''tasks'' i e1)])) d))
        ''categories'' 2 ''tasks'' r = Inr out"
    using l x2 by (simp add: assign_slot_Inr_iff update_conv' out)
  show ?lhs
    by (simp only: fill_categories_def a0 a1 a2 sum.case)
qed

lemma fill_categories_filled:
  assumes "t = JObj d" and "map_of d ''categories'' = Some (JArr xs)" and "2 < length xs"
    and "xs ! 0 = JObj e0" and "xs ! 1 = JObj e1" and "xs ! 2 = JObj e2"
  shows "fill_categories t u i r
      = Inr (JObj (AList.update ''categories''
                   (JArr (xs[0 := JObj (AList.update ''tasks'' u e0),
                             1 := JObj (AList.update ''tasks'' i e1),
                             2 := JObj (AList.update ''tasks'' r e2)])) d))"
  unfolding fill_categories_Inr_iff using assms by blast

lemma three_updates_overwrite:
  "xs[0 := a, 1 := b, 2 := c, 0 := a', 1 := b', 2 := c'] = xs[0 := a', 1 := b', 2 := c']"
proof (rule nth_equalityI)
  show "length (xs[0 := a, 1 := b, 2 := c, 0 := a', 1 := b', 2 := c'])
      = length (xs[0 := a', 1 := b', 2 := c'])"
    by simp
next
  fix n
  assume "n < length (xs[0 := a, 1 := b, 2 := c, 0 := a', 1 := b', 2 := c'])"
  then have n: "n < length xs"
    by simp
  consider "n = 0" | "n = 1" | "n = 2" | "n \<noteq> 0" "n \<noteq> 1" "n \<noteq> 2"
    by blast
  then show "xs[0 := a, 1 := b, 2 := c, 0 := a', 1 := b', 2 := c'] ! n
      = xs[0 := a', 1 := b', 2 := c'] ! n"
  proof cases
    case 1
    with n show ?thesis by simp
  next
    case 2
    with n show ?thesis by simp
  next
    case 3
    with n show ?thesis by simp
  next
    case 4
    then show ?thesis by simp
  qed
qed

lemma fill_categories_overwrite:
  assumes "fill_categories t u i r = Inr out"
  shows "fill_categories out u' i' r' = fill_categories t u' i' r'"
proof -
  from assms obtain d xs e0 e1 e2 where
    t: "t = JObj d" and k: "map_of d ''categories'' = Some (JArr xs)" and l: "2 < length xs"
    and x0: "xs ! 0 = JObj e0" and x1: "xs ! 1 = JObj e1" and x2: "xs ! 2 = JObj e2"
    and out: "out = JObj (AList.update ''categories''
                   (JArr (xs[0 := JObj (AList.update ''tasks'' u e0),
                             1 := JObj (AList.update ''tasks'' i e1),
                             2 := JObj (AList.update ''tasks'' r e2)])) d)"
    unfolding fill_categories_Inr_iff by blast
  define ys where "ys = xs[0 := JObj (AList.update ''tasks'' u e0),
                            1 := JObj (AList.update ''tasks'' i e1),
                            2 := JObj (AList.update ''tasks'' r e2)]"
  define d' where "d' = AList.update ''categories'' (JArr ys) d"
  let ?res = "JObj (AList.update ''categories''
                   (JArr (xs[0 := JObj (AList.update ''tasks'' u' e0),
                             1 := JObj (AList.update ''tasks'' i' e1),
                             2 := JObj (AList.update ''tasks'' r' e2)])) d)"
  have "fill_categories t u' i' r' = Inr ?res"
    using t k l x0 x1 x2 by (rule fill_categories_filled)
  moreover have "fill_categories out u' i' r' = Inr ?res"
  proof -
    have o: "out = JObj d'"
      by (simp add: out d'_def ys_def)
    have k': "map_of d' ''categories'' = Some (JArr ys)"
      by (simp add: d'_def update_conv')
    have l': "2 < length ys"
      using l by (simp add: ys_def)
    have l0: "0 < length xs" "1 < length xs"
      using l by auto
    have y0: "ys ! 0 = JObj (AList.update ''tasks'' u e0)"
      and y1: "ys ! 1 = JObj (AList.update ''tasks'' i e1)"
      and y2: "ys ! 2 = JObj (AList.update ''tasks'' r e2)"
      using l l0 by (simp_all add: ys_def)
    have same: "AList.update ''categories''
          (JArr (ys[0 := JObj (AList.update ''tasks'' u' (AList.update ''tasks'' u e0)),
                    1 := JObj (AList.update ''tasks'' i' (AList.update ''tasks'' i e1)),
                    2 := JObj (AList.update ''tasks'' r' (AList.update ''tasks'' r e2))])) d'
        = AList.update ''categories''
            (JArr (xs[0 := JObj (AList.update ''tasks'' u' e0),
                      1 := JObj (AList.update ''tasks'' i' e1),
                      2 := JObj (AList.update ''tasks'' r' e2)])) d"
      unfolding d'_def ys_def update_last three_updates_overwrite ..
    have "fill_categories (JObj d') u' i' r'
        = Inr (JObj (AList.update ''categories''
            (JArr (ys[0 := JObj (AList.update ''tasks'' u' (AList.update ''tasks'' u e0)),
                      1 := JObj (AList.update ''tasks'' i' (AList.update ''tasks'' i e1)),
                      2 := JObj (AList.update ''tasks'' r' (AList.update ''tasks'' r e2))])) d'))"
      using refl k' l' y0 y1 y2 by (rule fill_categories_filled)
    then show ?thesis
      by (simp only: o same)
  qed
  ultimately show ?thesis
    by simp
qed

lemma subdoc_fill_categories_frame:
  assumes "fill_categories t u i r = Inr out"
    and "\<not> touches p (todo_slot 0)" and "\<not> touches p (todo_slot 1)"
    and "\<not> touches p (todo_slot 2)"
  shows "subdoc out p = subdoc t p"
proof -
  from assms(1) obtain t0 t1 where
    a0: "assign_slot t ''categories'' 0 ''tasks'' u = Inr t0"
    and a1: "assign_slot t0 ''categories'' 1 ''tasks'' i = Inr t1"
    and a2: "assign_slot t1 ''categories'' 2 ''tasks'' r = Inr out"
    by (rule fill_categories_steps)
  have "subdoc out p = subdoc t1 p"
    using a2 assms(4) unfolding todo_slot_def by (rule subdoc_assign_slot_frame)
  also have "\<dots> = subdoc t0 p"
    using a1 assms(3) unfolding todo_slot_def by (rule subdoc_assign_slot_frame)
  also have "\<dots> = subdoc t p"
    using a0 assms(2) unfolding todo_slot_def by (rule subdoc_assign_slot_frame)
  finally show ?thesis .
qed

text \<open>
  Claim C8. Each export returns its template with one slot overwritten and everything else
  as it was: writing any value into the slot of the output and into the slot of the
  template gives the same document, and every path that does not touch the slot leads to
  the same part in both. The slot is the rows of the first tab for sheets, the pages for
  notion, and the task lists of the first three categories for the to-do list.
\<close>

theorem templates_pass_through:
  "(\<forall>out. transform_to_sheets_format clk template assignments = Inr out \<longrightarrow>
      (\<forall>w. assign_slot out ''sheet_tabs'' 0 ''rows'' w
             = assign_slot template ''sheet_tabs'' 0 ''rows'' w)
      \<and> (\<forall>p. \<not> touches p sheets_slot \<longrightarrow> subdoc out p = subdoc template p))
   \<and> (\<forall>out. transform_to_notion_format template assignments = Inr out \<longrightarrow>
      (\<forall>w. setitem_key out ''pages'' w = setitem_key template ''pages'' w)
      \<and> (\<forall>p. \<not> touches p notion_slot \<longrightarrow> subdoc out p = subdoc template p))
   \<and> (\<forall>out. transform_to_todo_format clk template assignments = Inr out \<longrightarrow>
      (\<forall>u i r. fill_categories out u i r = fill_categories template u i r)
      \<and> (\<forall>p. \<not> touches p (todo_slot 0) \<and> \<not> touches p (todo_slot 1)
              \<and> \<not> touches p (todo_slot 2) \<longrightarrow> subdoc out p = subdoc template p))"
proof (intro conjI allI impI)
  fix out w
  assume "transform_to_sheets_format clk template assignments = Inr out"
  then show "assign_slot out ''sheet_tabs'' 0 ''rows'' w
             = assign_slot template ''sheet_tabs'' 0 ''rows'' w"
    unfolding transform_to_sheets_format_def by (rule assign_slot_overwrite)
next
  fix out p
  assume "transform_to_sheets_format clk template assignments = Inr out"
    and "\<not> touches p sheets_slot"
  then show "subdoc out p = subdoc template p"
    unfolding transform_to_sheets_format_def sheets_slot_def
    by (rule subdoc_assign_slot_frame)
next
  fix out w
  assume "transform_to_notion_format template assignments = Inr out"
  then show "setitem_key out ''pages'' w = setitem_key template ''pages'' w"
    unfolding transform_to_notion_format_def by (rule setitem_key_overwrite)
next
  fix out p
  assume "transform_to_notion_format template assignments = Inr out"
    and "\<not> touches p notion_slot"
  then show "subdoc out p = subdoc template p"
    unfolding transform_to_notion_format_def notion_slot_def
    by (rule subdoc_setitem_frame)
next
  fix out u i r
  assume "transform_to_todo_format clk template assignments = Inr out"
  then show "fill_categories out u i r = fill_categories template u i r"
    unfolding transform_to_todo_format_def Let_def by (rule fill_categories_overwrite)
next
  fix out p
  assume run: "transform_to_todo_format clk template assignments = Inr out"
    and "\<not> touches p (todo_slot 0) \<and> \<not> touches p (todo_slot 1) \<and> \<not> touches p (todo_slot 2)"
  then have p: "\<not> touches p (todo_slot 0)" "\<not> touches p (todo_slot 1)"
    "\<not> touches p (todo_slot 2)"
    by simp_all
  from run show "subdoc out p = subdoc template p"
    unfolding transform_to_todo_format_def Let_def
    using p by (rule subdoc_fill_categories_frame)
qed

theorem templates_pass_through_witness:
  "\<not> isl (transform_to_sheets_format sample_clock sample_sheets_template sample_assignments)
   \<and> subdoc (projr (transform_to_sheets_format sample_clock sample_sheets_template
                       sample_assignments)) [Key ''sheet_tabs'', Idx 0, Key ''tab_name'']
       = Some (JStr ''All'')
   \<and> \<not> isl (transform_to_notion_format sample_notion_template sample_assignments)
   \<and> subdoc (projr (transform_to_notion_format sample_notion_template sample_assignments))
        [Key ''database_name''] = Some (JStr ''Tracker'')
   \<and> \<not> isl (transform_to_todo_format sample_clock sample_todo_template sample_assignments)
   \<and> subdoc (projr (transform_to_todo_format sample_clock sample_todo_template
                       sample_assignments)) [Key ''categories'', Idx 1, Key ''name'']
       = Some (JStr ''Important'')"
proof -
  let ?s = "transform_to_sheets_format sample_clock sample_sheets_template sample_assignments"
  let ?n = "transform_to_notion_format sample_notion_template sample_assignments"
  let ?t = "transform_to_todo_format sample_clock sample_todo_template sample_assignments"
  have ok: "\<not> isl ?s" "\<not> isl ?n" "\<not> isl ?t"
    by code_simp+
  then obtain so no to where out: "?s = Inr so" "?n = Inr no" "?t = Inr to"
    by (cases ?s; cases ?n; cases ?t) auto
  have away:
    "\<not> touches [Key ''sheet_tabs'', Idx 0, Key ''tab_name''] sheets_slot"
    "\<not> touches [Key ''database_name''] notion_slot"
    "\<not> touches [Key ''categories'', Idx 1, Key ''name''] (todo_slot 0)"
    "\<not> touches [Key ''categories'', Idx 1, Key ''name''] (todo_slot 1)"
    "\<not> touches [Key ''categories'', Idx 1, Key ''name''] (todo_slot 2)"
    by (simp_all add: touches_def sheets_slot_def notion_slot_def todo_slot_def)
  have before:
    "subdoc sample_sheets_template [Key ''sheet_tabs'', Idx 0, Key ''tab_name'']
       = Some (JStr ''All'')"
    "subdoc sample_notion_template [Key ''database_name''] = Some (JStr ''Tracker'')"
    "subdoc sample_todo_template [Key ''categories'', Idx 1, Key ''name'']
       = Some (JStr ''Important'')"
    by (simp_all add: sample_sheets_template_def sample_notion_template_def
        sample_todo_template_def child_def)
  have s: "subdoc so [Key ''sheet_tabs'', Idx 0, Key ''tab_name'']
      = subdoc sample_sheets_template [Key ''sheet_tabs'', Idx 0, Key ''tab_name'']"
    using templates_pass_through [of sample_clock sample_sheets_template sample_assignments]
      out(1) away(1) by blast
  have n: "subdoc no [Key ''database_name''] = subdoc sample_notion_template [Key ''database_name'']"
    using templates_pass_through [of sample_clock sample_notion_template sample_assignments]
      out(2) away(2) by blast
  have t: "subdoc to [Key ''categories'', Idx 1, Key ''name'']
      = subdoc sample_todo_template [Key ''categories'', Idx 1, Key ''name'']"
    using templates_pass_through [of sample_clock sample_todo_template sample_assignments]
      out(3) away(3,4,5) by blast
  show ?thesis
    using ok by (simp only: out sum.sel s n t before) simp
qed

section \<open>The clock is the only hidden input\<close>

lemma sheets_row_same_days:
  assumes "calculate_days_until_due clk (dict_get a ''due_date'')
         = calculate_days_until_due clk' (dict_get a ''due_date'')"
  shows "sheets_row clk a = sheets_row clk' a"
  using assms by (simp add: sheets_row_def)

lemma bucket_spec_same_days:
  assumes "calculate_days_until_due clk (dict_get a ''due_date'')
         = calculate_days_until_due clk' (dict_get a ''due_date'')"
  shows "bucket_spec clk a = bucket_spec clk' a"
  using assms by (simp add: bucket_spec_def)

lemma sheets_rows_same_days:
  assumes "\<forall>a \<in> set xs. calculate_days_until_due clk (dict_get a ''due_date'')
                          = calculate_days_until_due clk' (dict_get a ''due_date'')"
  shows "sheets_rows clk xs = sheets_rows clk' xs"
proof -
  have row: "sheets_row clk a = sheets_row clk' a" if "a \<in> set xs" for a
    by (rule sheets_row_same_days) (use that assms in blast)
  have "map (\<lambda>a. JArr (sheets_row clk a)) xs = map (\<lambda>a. JArr (sheets_row clk' a)) xs"
    by (rule map_cong [OF refl]) (simp only: row)
  then show ?thesis
    by (simp only: sheets_rows_map)
qed

lemma todo_loop_same_days:
  assumes "\<forall>a \<in> set xs. calculate_days_until_due clk (dict_get a ''due_date'')
                          = calculate_days_until_due clk' (dict_get a ''due_date'')"
  shows "todo_loop clk xs = todo_loop clk' xs"
proof -
  have bucket: "bucket_spec clk a = bucket_spec clk' a" if "a \<in> set xs" for a
    by (rule bucket_spec_same_days) (use that assms in blast)
  have "filter (\<lambda>a. bucket_spec clk a = b) xs = filter (\<lambda>a. bucket_spec clk' a = b) xs" for b
    by (rule filter_cong [OF refl]) (simp only: bucket)
  then show ?thesis
    by (simp only: todo_loop_buckets)
qed

text \<open>
  Claim C9. The three exports are functions of the assignments, the templates and the
  clock, and the clock enters only through the days until due: two runs on the same
  assignments and templates whose clocks give every assignment the same days until due
  write the same files with the same documents, or end with the same error. In particular
  two runs at the same frozen moment do.
\<close>

theorem exports_deterministic:
  assumes "\<forall>a \<in> set assignments.
             calculate_days_until_due clk (dict_get a ''due_date'')
               = calculate_days_until_due clk' (dict_get a ''due_date'')"
  shows "transform_to_sheets_format clk (sheets_template ts) assignments
           = transform_to_sheets_format clk' (sheets_template ts) assignments
         \<and> transform_to_todo_format clk (todo_template ts) assignments
           = transform_to_todo_format clk' (todo_template ts) assignments
         \<and> export_all_formats clk ts assignments = export_all_formats clk' ts assignments"
proof -
  have s: "transform_to_sheets_format clk (sheets_template ts) assignments
           = transform_to_sheets_format clk' (sheets_template ts) assignments"
    by (simp only: transform_to_sheets_format_def sheets_rows_same_days [OF assms])
  have t: "transform_to_todo_format clk (todo_template ts) assignments
           = transform_to_todo_format clk' (todo_template ts) assignments"
    by (simp only: transform_to_todo_format_def todo_loop_same_days [OF assms])
  have "export_all_formats clk ts assignments = export_all_formats clk' ts assignments"
    by (simp only: export_all_formats_def s t)
  with s t show ?thesis
    by (intro conjI)
qed

theorem exports_deterministic_witness:
  "calculate_days_until_due sample_clock (dict_get sample_essay ''due_date'') = Some 3
   \<and> calculate_days_until_due (sample_clock\<lparr>utc_now := utc_now sample_clock + 3600000000\<rparr>)
        (dict_get sample_essay ''due_date'') = Some 2
   \<and> export_all_formats sample_clock sample_templates sample_assignments
       = export_all_formats (sample_clock\<lparr>local_utcoffset := 3600000000\<rparr>) sample_templates
           sample_assignments
   \<and> snd (export_all_formats sample_clock sample_templates sample_assignments) = None
   \<and> map fst (fst (export_all_formats sample_clock sample_templates sample_assignments))
       = [''data/google_sheets_export.json'', ''data/notion_export.json'',
          ''data/todo_export.json'']"
proof -
  let ?other = "sample_clock\<lparr>local_utcoffset := 3600000000\<rparr>"
  have same: "\<forall>a \<in> set sample_assignments.
      calculate_days_until_due sample_clock (dict_get a ''due_date'')
        = calculate_days_until_due ?other (dict_get a ''due_date'')"
    by code_simp
  have d1: "calculate_days_until_due sample_clock (dict_get sample_essay ''due_date'') = Some 3"
    by code_simp
  have d2: "calculate_days_until_due (sample_clock\<lparr>utc_now := utc_now sample_clock + 3600000000\<rparr>)
        (dict_get sample_essay ''due_date'') = Some 2"
    by code_simp
  let ?s = "transform_to_sheets_format sample_clock sample_sheets_template sample_assignments"
  let ?n = "transform_to_notion_format sample_notion_template sample_assignments"
  let ?t = "transform_to_todo_format sample_clock sample_todo_template sample_assignments"
  have ok: "\<not> isl ?s" "\<not> isl ?n" "\<not> isl ?t"
    by code_simp+
  then obtain so no to where out: "?s = Inr so" "?n = Inr no" "?t = Inr to"
    by (cases ?s; cases ?n; cases ?t) auto
  have run: "export_all_formats sample_clock sample_templates sample_assignments
      = ([(''data/google_sheets_export.json'', so), (''data/notion_export.json'', no),
          (''data/todo_export.json'', to)], None)"
    by (simp only: export_all_formats_def sample_templates_def templates.simps out sum.case)
  have ended: "snd (export_all_formats sample_clock sample_templates sample_assignments) = None"
    by (simp only: run snd_conv)
  have files: "map fst (fst (export_all_formats sample_clock sample_templates sample_assignments))
       = [''data/google_sheets_export.json'', ''data/notion_export.json'',
          ''data/todo_export.json'']"
    by (simp only: run fst_conv list.map)
  from exports_deterministic [OF same, of sample_templates]
  have eq: "export_all_formats sample_clock sample_templates sample_assignments
      = export_all_formats ?other sample_templates sample_assignments"
    by (rule conjunct2 [THEN conjunct2])
  show ?thesis
    by (rule conjI d1 d2 eq ended files)+
qed

section \<open>What the exports need of their templates\<close>

lemma is_object_iff: "is_object x \<longleftrightarrow> (\<exists>e. x = JObj e)"
  by (cases x) (simp_all add: is_object_def)

lemma first_object:
  "1 \<le> length xs \<and> list_all is_object (take 1 xs) \<longleftrightarrow> 0 < length xs \<and> is_object (xs ! 0)"
  by (cases xs) simp_all

lemma first_three_objects:
  "3 \<le> length xs \<and> list_all is_object (take 3 xs)
     \<longleftrightarrow> 2 < length xs \<and> is_object (xs ! 0) \<and> is_object (xs ! 1) \<and> is_object (xs ! 2)"
proof (cases xs)
  case Nil
  then show ?thesis by simp
next
  case (Cons a ys)
  note xs = this
  show ?thesis
  proof (cases ys)
    case Nil
    with xs show ?thesis by simp
  next
    case (Cons b zs)
    note ys = this
    show ?thesis
    proof (cases zs)
      case Nil
      with xs ys show ?thesis by simp
    next
      case (Cons c ws)
      have "take 3 (a # b # c # ws) = [a, b, c]"
        by (simp add: numeral_3_eq_3)
      with xs ys Cons show ?thesis by simp
    qed
  qed
qed

lemma sheets_succeeds_iff:
  "(\<exists>out. transform_to_sheets_format clk t xs = Inr out) \<longleftrightarrow> has_objects t ''sheet_tabs'' 1"
proof -
  have "(\<exists>out. transform_to_sheets_format clk t xs = Inr out)
      \<longleftrightarrow> (\<exists>d ys. t = JObj d \<and> map_of d ''sheet_tabs'' = Some (JArr ys)
             \<and> 0 < length ys \<and> is_object (ys ! 0))"
    unfolding transform_to_sheets_format_def assign_slot_Inr_iff is_object_iff by blast
  also have "\<dots> \<longleftrightarrow> has_objects t ''sheet_tabs'' 1"
    unfolding has_objects_def first_object
    by (auto split: json.splits option.splits)
  finally show ?thesis .
qed

lemma todo_succeeds_iff:
  "(\<exists>out. transform_to_todo_format clk t xs = Inr out) \<longleftrightarrow> has_objects t ''categories'' 3"
proof -
  have "(\<exists>out. transform_to_todo_format clk t xs = Inr out)
      \<longleftrightarrow> (\<exists>d ys. t = JObj d \<and> map_of d ''categories'' = Some (JArr ys) \<and> 2 < length ys
             \<and> is_object (ys ! 0) \<and> is_object (ys ! 1) \<and> is_object (ys ! 2))"
    unfolding transform_to_todo_format_def Let_def fill_categories_Inr_iff is_object_iff
    by blast
  also have "\<dots> \<longleftrightarrow> has_objects t ''categories'' 3"
    unfolding has_objects_def first_three_objects
    by (auto split: json.splits option.splits)
  finally show ?thesis .
qed

lemma assign_slot_missing_key:
  assumes "map_of d k = None"
  shows "assign_slot (JObj d) k i slot v = Inl KeyError"
  using assms by (simp add: assign_slot_def getitem_key_def)

lemma assign_slot_short_list:
  assumes "map_of d k = Some (JArr ys)" and "length ys \<le> i"
  shows "assign_slot (JObj d) k i slot v = Inl IndexError"
  using assms by (simp add: assign_slot_def getitem_key_def getitem_idx_def)

lemma assign_slot_object:
  assumes "map_of d k = Some (JArr ys)" and "i < length ys" and "ys ! i = JObj e"
  shows "assign_slot (JObj d) k i slot v
      = Inr (JObj (AList.update k (JArr (ys[i := JObj (AList.update slot v e)])) d))"
  using assms by (simp add: assign_slot_Inr_iff)

lemma fill_categories_short_list:
  assumes k: "map_of d ''categories'' = Some (JArr ys)" and short: "length ys < 3"
    and objs: "list_all is_object ys"
  shows "fill_categories (JObj d) u i r = Inl IndexError"
proof -
  consider "ys = []" | a where "ys = [a]" | a b where "ys = [a, b]"
  proof (cases ys)
    case Nil
    then show ?thesis using that by simp
  next
    case (Cons a zs)
    note ys = this
    show ?thesis
    proof (cases zs)
      case Nil
      with ys show ?thesis using that by simp
    next
      case (Cons b ws)
      with ys short have "ws = []" by simp
      with ys Cons show ?thesis using that by simp
    qed
  qed
  then show ?thesis
  proof cases
    case 1
    then have "assign_slot (JObj d) ''categories'' 0 ''tasks'' u = Inl IndexError"
      using k by (simp add: assign_slot_short_list)
    then show ?thesis
      by (simp add: fill_categories_def)
  next
    case 2
    with objs obtain e where a: "a = JObj e"
      by (auto simp: is_object_iff)
    let ?d0 = "AList.update ''categories'' (JArr [JObj (AList.update ''tasks'' u e)]) d"
    have s0: "assign_slot (JObj d) ''categories'' 0 ''tasks'' u = Inr (JObj ?d0)"
      using assign_slot_object [OF k, of 0 e "''tasks''" u] 2 a by simp
    have s1: "assign_slot (JObj ?d0) ''categories'' 1 ''tasks'' i = Inl IndexError"
      by (rule assign_slot_short_list [where ys = "[JObj (AList.update ''tasks'' u e)]"])
         (simp_all add: update_conv')
    show ?thesis
      by (simp only: fill_categories_def s0 s1 sum.case)
  next
    case 3
    with objs obtain e0 e1 where a: "a = JObj e0" and b: "b = JObj e1"
      by (auto simp: is_object_iff)
    let ?y0 = "[JObj (AList.update ''tasks'' u e0), JObj e1]"
    let ?d0 = "AList.update ''categories'' (JArr ?y0) d"
    let ?y1 = "[JObj (AList.update ''tasks'' u e0), JObj (AList.update ''tasks'' i e1)]"
    let ?d1 = "AList.update ''categories'' (JArr ?y1) d"
    have s0: "assign_slot (JObj d) ''categories'' 0 ''tasks'' u = Inr (JObj ?d0)"
      using assign_slot_object [OF k, of 0 e0 "''tasks''" u] 3 a b by simp
    have k0: "map_of ?d0 ''categories'' = Some (JArr ?y0)"
      by (simp add: update_conv')
    have s1: "assign_slot (JObj ?d0) ''categories'' 1 ''tasks'' i = Inr (JObj ?d1)"
      using assign_slot_object [OF k0, of 1 e1 "''tasks''" i] by simp
    have s2: "assign_slot (JObj ?d1) ''categories'' 2 ''tasks'' r = Inl IndexError"
      by (rule assign_slot_short_list [where ys = ?y1]) (simp_all add: update_conv')
    show ?thesis
      by (simp only: fill_categories_def s0 s1 s2 sum.case)
  qed
qed

text \<open>
  Claim C10, as the code has it. That the indexed elements exist is not enough: the code
  assigns into each of them, so a first element of \<^verbatim>\<open>sheet_tabs\<close> that is a number makes
  the sheets export fail with TypeError, and a \<^verbatim>\<open>categories\<close> list of two numbers makes
  the to-do export fail with TypeError, not with an index or key error.
\<close>

theorem existing_element_counterexample:
  "getitem_key (JObj [(''sheet_tabs'', JArr [JInt 5])]) ''sheet_tabs'' = Inr (JArr [JInt 5])
   \<and> getitem_idx (JArr [JInt 5]) 0 = Inr (JInt 5)
   \<and> transform_to_sheets_format sample_clock (JObj [(''sheet_tabs'', JArr [JInt 5])])
        sample_assignments = Inl TypeError
   \<and> transform_to_todo_format sample_clock (JObj [(''categories'', JArr [JInt 1, JInt 2])])
        sample_assignments = Inl TypeError"
  by (simp add: transform_to_sheets_format_def transform_to_todo_format_def fill_categories_def
      assign_slot_def getitem_key_def getitem_idx_def setitem_key_def)

text \<open>
  Claim C10, amended. The sheets export returns a document exactly when the template is a
  dictionary whose \<^verbatim>\<open>sheet_tabs\<close> is a list with a dictionary as first element, and the
  to-do export exactly when the template is a dictionary whose \<^verbatim>\<open>categories\<close> is a list
  with dictionaries as its first three elements. A dictionary without the key makes the
  export fail with KeyError, an empty \<^verbatim>\<open>sheet_tabs\<close> list with IndexError, and a
  \<^verbatim>\<open>categories\<close> list of fewer than three elements, all dictionaries, with IndexError; in
  each of these cases no document is returned.
\<close>

theorem template_preconditions:
  "((\<exists>out. transform_to_sheets_format clk template assignments = Inr out)
      \<longleftrightarrow> has_objects template ''sheet_tabs'' 1)
   \<and> ((\<exists>out. transform_to_todo_format clk template assignments = Inr out)
      \<longleftrightarrow> has_objects template ''categories'' 3)
   \<and> (\<forall>d. template = JObj d \<and> map_of d ''sheet_tabs'' = None \<longrightarrow>
          transform_to_sheets_format clk template assignments = Inl KeyError)
   \<and> (\<forall>d. template = JObj d \<and> map_of d ''sheet_tabs'' = Some (JArr []) \<longrightarrow>
          transform_to_sheets_format clk template assignments = Inl IndexError)
   \<and> (\<forall>d. template = JObj d \<and> map_of d ''categories'' = None \<longrightarrow>
          transform_to_todo_format clk template assignments = Inl KeyError)
   \<and> (\<forall>d ys. template = JObj d \<and> map_of d ''categories'' = Some (JArr ys)
              \<and> length ys < 3 \<and> list_all is_object ys \<longrightarrow>
          transform_to_todo_format clk template assignments = Inl IndexError)"
proof (intro conjI allI impI)
  show "(\<exists>out. transform_to_sheets_format clk template assignments = Inr out)
      \<longleftrightarrow> has_objects template ''sheet_tabs'' 1"
    by (rule sheets_succeeds_iff)
next
  show "(\<exists>out. transform_to_todo_format clk template assignments = Inr out)
      \<longleftrightarrow> has_objects template ''categories'' 3"
    by (rule todo_succeeds_iff)
next
  fix d
  assume "template = JObj d \<and> map_of d ''sheet_tabs'' = None"
  then show "transform_to_sheets_format clk template assignments = Inl KeyError"
    by (simp add: transform_to_sheets_format_def assign_slot_missing_key)
next
  fix d
  assume "template = JObj d \<and> map_of d ''sheet_tabs'' = Some (JArr [])"
  then show "transform_to_sheets_format clk template assignments = Inl IndexError"
    by (simp add: transform_to_sheets_format_def assign_slot_short_list [where ys = "[]"])
next
  fix d
  assume "template = JObj d \<and> map_of d ''categories'' = None"
  then show "transform_to_todo_format clk template assignments = Inl KeyError"
    by (simp add: transform_to_todo_format_def fill_categories_def assign_slot_missing_key)
next
  fix d ys
  assume h: "template = JObj d \<and> map_of d ''categories'' = Some (JArr ys)
              \<and> length ys < 3 \<and> list_all is_object ys"
  then have "fill_categories (JObj d)
        (JArr (urgent_important (todo_loop clk assignments)))
        (JArr (important_not_urgent (todo_loop clk assignments)))
        (JArr (regular (todo_loop clk assignments))) = Inl IndexError"
    by (intro fill_categories_short_list [where ys = ys]) simp_all
  with h show "transform_to_todo_format clk template assignments = Inl IndexError"
    by (simp only: transform_to_todo_format_def Let_def)
qed

theorem template_preconditions_witness:
  "has_objects sample_sheets_template ''sheet_tabs'' 1
   \<and> \<not> isl (transform_to_sheets_format sample_clock sample_sheets_template sample_assignments)
   \<and> has_objects sample_todo_template ''categories'' 3
   \<and> \<not> isl (transform_to_todo_format sample_clock sample_todo_template sample_assignments)
   \<and> transform_to_sheets_format sample_clock (JObj [(''spreadsheet_name'', JStr ''Tracker'')])
        sample_assignments = Inl KeyError
   \<and> transform_to_todo_format sample_clock
        (JObj [(''categories'', JArr [JObj [(''name'', JStr ''Urgent'')],
                                      JObj [(''name'', JStr ''Important'')]])])
        sample_assignments = Inl IndexError"
proof -
  let ?nokey = "JObj [(''spreadsheet_name'', JStr ''Tracker'')]"
  let ?two = "JObj [(''categories'', JArr [JObj [(''name'', JStr ''Urgent'')],
                                           JObj [(''name'', JStr ''Important'')]])]"
  have hs: "has_objects sample_sheets_template ''sheet_tabs'' 1"
    by (simp add: has_objects_def sample_sheets_template_def is_object_def)
  have ht: "has_objects sample_todo_template ''categories'' 3"
    by (simp add: has_objects_def sample_todo_template_def is_object_def numeral_3_eq_3)
  from template_preconditions [of sample_clock sample_sheets_template sample_assignments] hs
  obtain so where "transform_to_sheets_format sample_clock sample_sheets_template
      sample_assignments = Inr so"
    by blast
  then have s: "\<not> isl (transform_to_sheets_format sample_clock sample_sheets_template
      sample_assignments)"
    by simp
  from template_preconditions [of sample_clock sample_todo_template sample_assignments] ht
  obtain to where "transform_to_todo_format sample_clock sample_todo_template
      sample_assignments = Inr to"
    by blast
  then have t: "\<not> isl (transform_to_todo_format sample_clock sample_todo_template
      sample_assignments)"
    by simp
  have "?nokey = JObj [(''spreadsheet_name'', JStr ''Tracker'')]
      \<and> map_of [(''spreadsheet_name'', JStr ''Tracker'')] ''sheet_tabs'' = None"
    by simp
  with template_preconditions [of sample_clock ?nokey sample_assignments]
  have k: "transform_to_sheets_format sample_clock ?nokey sample_assignments = Inl KeyError"
    by blast
  have "?two = JObj [(''categories'', JArr [JObj [(''name'', JStr ''Urgent'')],
                                            JObj [(''name'', JStr ''Important'')]])]
      \<and> map_of [(''categories'', JArr [JObj [(''name'', JStr ''Urgent'')],
                                       JObj [(''name'', JStr ''Important'')]])] ''categories''
          = Some (JArr [JObj [(''name'', JStr ''Urgent'')], JObj [(''name'', JStr ''Important'')]])
      \<and> length [JObj [(''name'', JStr ''Urgent'')], JObj [(''name'', JStr ''Important'')]] < 3
      \<and> list_all is_object [JObj [(''name'', JStr ''Urgent'')], JObj [(''name'', JStr ''Important'')]]"
    by (simp add: is_object_def)
  with template_preconditions [of sample_clock ?two sample_assignments]
  have i: "transform_to_todo_format sample_clock ?two sample_assignments = Inl IndexError"
    by blast
  show ?thesis
    by (rule conjI hs s ht t k i)+
qed

end
